theory Spec2Isabelle
  imports Main
begin

section \<open>The AddUsing tweak of clangd\<close>

text \<open>
  A shallow embedding of \<^verbatim>\<open>clang-tools-extra/clangd/refactor/tweaks/AddUsing.cpp\<close>:
  the tweak that removes the namespace qualifier under the cursor and adds a
  using-declaration for the name instead. The functions of the file (\<^verbatim>\<open>UsingFinder\<close>,
  \<^verbatim>\<open>findInsertionPoint\<close>, \<^verbatim>\<open>AddUsing::prepare\<close>, \<^verbatim>\<open>AddUsing::apply\<close>) are translated line by
  line. What they call in clang (the source manager, the token buffer, declaration
  contexts) is not part of the file: it is either a function-valued field of a record,
  so that every theorem holds whatever those functions answer, or a definition marked
  as modelled from the specification.
\<close>

subsection \<open>Source locations\<close>

text \<open>
  A \<^verbatim>\<open>SourceLocation\<close> is invalid (the default-constructed one), a location in a file, or
  a location in a macro expansion. The number it carries is opaque to the tweak.
\<close>

datatype SourceLocation = InvalidLoc | FileLoc nat | MacroLoc nat

fun isValid :: "SourceLocation \<Rightarrow> bool" where
  "isValid InvalidLoc = False"
| "isValid (FileLoc n) = True"
| "isValid (MacroLoc n) = True"

fun isInvalid :: "SourceLocation \<Rightarrow> bool" where
  "isInvalid l = (\<not> isValid l)"

fun isMacroID :: "SourceLocation \<Rightarrow> bool" where
  "isMacroID (MacroLoc n) = True"
| "isMacroID l = False"

record SourceRange =
  getBegin :: SourceLocation
  getEnd :: SourceLocation

type_synonym FileID = nat

text \<open>The queries of \<^verbatim>\<open>SourceManager\<close> that the tweak makes, as fields.\<close>

record SourceManager =
  getFileID :: "SourceLocation \<Rightarrow> FileID"
  getMainFileID :: FileID
  isBeforeInTranslationUnit :: "SourceLocation \<Rightarrow> SourceLocation \<Rightarrow> bool"
  getExpansionLoc :: "SourceLocation \<Rightarrow> SourceLocation"
  isMacroBodyExpansion :: "SourceLocation \<Rightarrow> bool"
  isWrittenInSameFile :: "SourceLocation \<Rightarrow> SourceLocation \<Rightarrow> bool"
  getDecomposedLoc :: "SourceLocation \<Rightarrow> FileID \<times> nat"
  getFilename :: "FileID \<Rightarrow> string"

subsection \<open>Namespaces and qualifier chains\<close>

text \<open>
  A namespace declaration: \<open>getCanonicalDecl\<close> identifies the namespace entity whatever
  declaration of it is at hand (the code compares these pointers), \<open>scopePath\<close> is the
  path of names from the outermost enclosing namespace down to this one, and
  \<open>nsSourceRange\<close> is what \<^verbatim>\<open>ND->getSourceRange()\<close> returns.
\<close>

record NamespaceDecl =
  getCanonicalDecl :: nat
  scopePath :: "string list"
  nsSourceRange :: SourceRange

text \<open>
  A segment of a qualifier chain with the entity it resolves to: a namespace, a type, a
  namespace alias, or nothing.
\<close>

datatype Segment =
    NamespaceSegment NamespaceDecl
  | TypeSegment string
  | AliasSegment string
  | UnresolvedSegment string

type_synonym NestedNameSpecifier = "Segment list"

fun segmentNamespace :: "Segment \<Rightarrow> NamespaceDecl option" where
  "segmentNamespace (NamespaceSegment ND) = Some ND"
| "segmentNamespace (TypeSegment t) = None"
| "segmentNamespace (AliasSegment a) = None"
| "segmentNamespace (UnresolvedSegment n) = None"

text \<open>
  Modelled from the spec: \<^verbatim>\<open>NestedNameSpecifier::getAsNamespace\<close> is outside
  \<^verbatim>\<open>AddUsing.cpp\<close>. The specification's data model has the chain expose ``the resolved scope entity
  for the whole chain (or none if any segment fails to resolve to a namespace)'': the
  namespace of the last segment when every segment is a namespace, nothing otherwise
  (and nothing for a chain without segments).
\<close>

fun getAsNamespace :: "NestedNameSpecifier \<Rightarrow> NamespaceDecl option" where
  "getAsNamespace [] = None"
| "getAsNamespace segs =
     (if list_all (\<lambda>s. segmentNamespace s \<noteq> None) segs
      then segmentNamespace (last segs) else None)"

text \<open>
  Modelled from the spec: \<^verbatim>\<open>NestedNameSpecifier::print\<close> is outside \<^verbatim>\<open>AddUsing.cpp\<close>.
  Of the inserted text the specification says that after the keyword comes ``the
  fully-qualified scope path of the candidate's resolved namespace chain (printed
  canonically, independent of original spelling/macros), a separator'': the names of
  \<open>scopePath\<close> of the resolved namespace, each followed by the separator \<^verbatim>\<open>::\<close>, as in
  the specification's example \<^verbatim>\<open>using a::b::f;\<close>. A chain that resolves to no namespace is
  never printed by the tweak; it prints as nothing here.
\<close>

fun printScopePath :: "string list \<Rightarrow> string" where
  "printScopePath [] = []"
| "printScopePath (n # ns) = n @ ''::'' @ printScopePath ns"

definition print :: "NestedNameSpecifier \<Rightarrow> string" where
  "print NNS = (case getAsNamespace NNS of
                  None \<Rightarrow> []
                | Some ND \<Rightarrow> printScopePath (scopePath ND))"

text \<open>
  \<^verbatim>\<open>NestedNameSpecifierLoc\<close>: a pointer to the specifier (null when there is no
  qualifier) with the locations where it is written.
\<close>

record NestedNameSpecifierLoc =
  getNestedNameSpecifier :: "NestedNameSpecifier option"
  getBeginLoc :: SourceLocation
  getEndLoc :: SourceLocation

definition hasQualifier :: "NestedNameSpecifierLoc \<Rightarrow> bool" where
  "hasQualifier Q = (getNestedNameSpecifier Q \<noteq> None)"

definition getSourceRange :: "NestedNameSpecifierLoc \<Rightarrow> SourceRange" where
  "getSourceRange Q = \<lparr>getBegin = getBeginLoc Q, getEnd = getEndLoc Q\<rparr>"

text \<open>The default-constructed \<^verbatim>\<open>NestedNameSpecifierLoc\<close>: no specifier, invalid locations.\<close>

definition emptyQualifierLoc :: NestedNameSpecifierLoc where
  "emptyQualifierLoc =
     \<lparr>getNestedNameSpecifier = None, getBeginLoc = InvalidLoc, getEndLoc = InvalidLoc\<rparr>"

subsection \<open>Declarations and declaration contexts\<close>

datatype DeclContext =
    TranslationUnitContext
  | NamespaceContext NamespaceDecl
  | OtherContext nat

text \<open>\<^verbatim>\<open>dyn_cast<NamespaceDecl>\<close> on a declaration context.\<close>

fun dyn_cast_NamespaceDecl :: "DeclContext \<Rightarrow> NamespaceDecl option" where
  "dyn_cast_NamespaceDecl (NamespaceContext ND) = Some ND"
| "dyn_cast_NamespaceDecl TranslationUnitContext = None"
| "dyn_cast_NamespaceDecl (OtherContext n) = None"

text \<open>
  A using-declaration \<^verbatim>\<open>using <qualifier>::<name>;\<close>. \<open>getUsingLoc\<close> is the location of
  its \<^verbatim>\<open>using\<close> keyword; \<open>usingEndLoc\<close> is where the declaration ends (the code does
  not read it).
\<close>

record UsingDecl =
  getUsingLoc :: SourceLocation
  usingEndLoc :: SourceLocation
  getQualifier :: NestedNameSpecifier
  getName :: string

datatype DeclKind = UsingDeclKind UsingDecl | NamespaceDeclKind NamespaceDecl | OtherDeclKind

text \<open>
  A declaration of the tree: the context it is declared in, what it is, where it
  begins, and the declarations below it in the order the visitor reaches them.
\<close>

datatype Decl = Decl DeclContext DeclKind SourceLocation "Decl list"

fun getDeclContext :: "Decl \<Rightarrow> DeclContext" where
  "getDeclContext (Decl DC K L Ds) = DC"

fun declKind :: "Decl \<Rightarrow> DeclKind" where
  "declKind (Decl DC K L Ds) = K"

fun declBeginLoc :: "Decl \<Rightarrow> SourceLocation" where
  "declBeginLoc (Decl DC K L Ds) = L"

fun childDecls :: "Decl \<Rightarrow> Decl list" where
  "childDecls (Decl DC K L Ds) = Ds"

text \<open>
  \<^verbatim>\<open>ASTContext\<close>: the declarations \<^verbatim>\<open>TraverseAST\<close> starts from, and the two queries on
  declaration contexts that the tweak makes, as fields.
\<close>

record ASTContext =
  getTraversalScope :: "Decl list"
  Encloses :: "DeclContext \<Rightarrow> DeclContext \<Rightarrow> bool"
  getEnclosingNamespaceContext :: "DeclContext \<Rightarrow> DeclContext"

subsection \<open>Tokens\<close>

datatype TokenKind =
  tok_l_brace | tok_r_brace | tok_identifier | tok_coloncolon | tok_kw_namespace | tok_other

record Token =
  kind :: TokenKind
  location :: SourceLocation
  endLocation :: SourceLocation

text \<open>
  \<^verbatim>\<open>syntax::TokenBuffer\<close>, with \<open>rangeLength F L\<close> for
  \<^verbatim>\<open>syntax::Token::range(SM, F, L).length()\<close>.
\<close>

record TokenBuffer =
  expandedTokens :: "SourceRange \<Rightarrow> Token list"
  spelledForExpanded :: "Token list \<Rightarrow> Token list option"
  rangeLength :: "Token \<Rightarrow> Token \<Rightarrow> nat"

subsection \<open>The selection\<close>

text \<open>
  The payload of a node of the selection tree, as far as the tweak distinguishes it: a
  nested-name-specifier, an elaborated type (with its qualifier and the name of its base
  type identifier), another type, a reference to a declaration (with its qualifier and
  the name of the declaration), or anything else.
\<close>

datatype DynTypedNode =
    NestedNameSpecifierLocNode
  | ElaboratedTypeLocNode NestedNameSpecifierLoc string
  | OtherTypeLocNode
  | DeclRefExprNode NestedNameSpecifierLoc string
  | OtherNode

datatype Node = Node DynTypedNode DeclContext "Node option"

fun ASTNode :: "Node \<Rightarrow> DynTypedNode" where
  "ASTNode (Node A DC P) = A"

fun nodeDeclContext :: "Node \<Rightarrow> DeclContext" where
  "nodeDeclContext (Node A DC P) = DC"

fun Parent :: "Node \<Rightarrow> Node option" where
  "Parent (Node A DC P) = P"

record ParsedAST =
  getSourceManager :: SourceManager
  getASTContext :: ASTContext
  getTokens :: TokenBuffer
  getLocalTopLevelDecls :: "Decl list"

record Selection =
  AST :: ParsedAST
  commonAncestor :: "Node option"
  Cursor :: SourceLocation

subsection \<open>Errors\<close>

datatype ReplacementErrorKind = wrong_file_path | overlap_conflict

text \<open>
  What a call can end in instead of a value: an \<^verbatim>\<open>llvm::Error\<close> (a string error of the
  tweak or an error of \<^verbatim>\<open>Replacements::add\<close>), the dereference of a null pointer, or a
  failed \<^verbatim>\<open>assert\<close>.
\<close>

datatype Error =
    StringError string
  | ReplacementError ReplacementErrorKind
  | NullDereference
  | AssertionFailure

subsection \<open>UsingFinder\<close>

text \<open>
  \<^verbatim>\<open>VisitUsingDecl\<close>: a using-declaration of the main file whose declaration context
  encloses the context of the selection is appended to the results.
\<close>

definition VisitUsingDecl ::
  "ASTContext \<Rightarrow> SourceManager \<Rightarrow> DeclContext \<Rightarrow> DeclContext \<Rightarrow> UsingDecl
   \<Rightarrow> UsingDecl list \<Rightarrow> UsingDecl list" where
  "VisitUsingDecl Ctx SM SelectionDeclContext DC D Results =
     (let Loc = getUsingLoc D in
      if getFileID SM Loc \<noteq> getMainFileID SM then Results
      else if Encloses Ctx DC SelectionDeclContext then Results @ [D]
      else Results)"

fun WalkUpFrom ::
  "ASTContext \<Rightarrow> SourceManager \<Rightarrow> DeclContext \<Rightarrow> Decl \<Rightarrow> UsingDecl list \<Rightarrow> UsingDecl list" where
  "WalkUpFrom Ctx SM Sel (Decl DC (UsingDeclKind D) L Ds) Results =
     VisitUsingDecl Ctx SM Sel DC D Results"
| "WalkUpFrom Ctx SM Sel (Decl DC K L Ds) Results = Results"

text \<open>
  \<^verbatim>\<open>TraverseDecl\<close>: a declaration whose context does not enclose the selection is not
  entered. Otherwise the visitor of the base class visits the declaration and then
  traverses the declarations below it, each through this same \<^verbatim>\<open>TraverseDecl\<close>. No visit
  method of \<^verbatim>\<open>UsingFinder\<close> returns false, so the traversal is never cut short.
\<close>

fun TraverseDecl ::
  "ASTContext \<Rightarrow> SourceManager \<Rightarrow> DeclContext \<Rightarrow> Decl \<Rightarrow> UsingDecl list \<Rightarrow> UsingDecl list"
and TraverseDecls ::
  "ASTContext \<Rightarrow> SourceManager \<Rightarrow> DeclContext \<Rightarrow> Decl list \<Rightarrow> UsingDecl list \<Rightarrow> UsingDecl list"
where
  "TraverseDecl Ctx SM Sel (Decl DC K L Ds) Results =
     (if Encloses Ctx DC Sel
      then TraverseDecls Ctx SM Sel Ds (WalkUpFrom Ctx SM Sel (Decl DC K L Ds) Results)
      else Results)"
| "TraverseDecls Ctx SM Sel [] Results = Results"
| "TraverseDecls Ctx SM Sel (D # Ds) Results =
     TraverseDecls Ctx SM Sel Ds (TraverseDecl Ctx SM Sel D Results)"

text \<open>\<^verbatim>\<open>TraverseAST\<close>: every declaration of the traversal scope, in order.\<close>

definition TraverseAST :: "ASTContext \<Rightarrow> SourceManager \<Rightarrow> DeclContext \<Rightarrow> UsingDecl list" where
  "TraverseAST Ctx SM Sel = TraverseDecls Ctx SM Sel (getTraversalScope Ctx) []"

subsection \<open>findInsertionPoint\<close>

record InsertionPointData =
  Loc :: SourceLocation
  Suffix :: string

text \<open>The default-constructed \<^verbatim>\<open>InsertionPointData\<close>: invalid location, empty suffix.\<close>

definition InsertionPointData_default :: InsertionPointData where
  "InsertionPointData_default = \<lparr>Loc = InvalidLoc, Suffix = []\<rparr>"

text \<open>
  How the loop over the using-declarations ends: by the \<^verbatim>\<open>return\<close> inside it, by
  falling out of it (at its end or by \<^verbatim>\<open>break\<close>) with the value of \<^verbatim>\<open>LastUsingLoc\<close>, or
  by dereferencing a null pointer in the comparison.
\<close>

datatype LoopExit = Returned InsertionPointData | FellThrough SourceLocation | Crashed

text \<open>
  The comparison of the loop,
  \<^verbatim>\<open>U->getQualifier()->getAsNamespace()->getCanonicalDecl() ==
   QualifierToRemove.getNestedNameSpecifier()->getAsNamespace()->getCanonicalDecl()\<close>:
  each of the pointers is dereferenced without a test.
\<close>

definition sameNamespace :: "UsingDecl \<Rightarrow> NestedNameSpecifierLoc \<Rightarrow> bool option" where
  "sameNamespace U QualifierToRemove =
     (case getAsNamespace (getQualifier U) of
        None \<Rightarrow> None
      | Some UsingNS \<Rightarrow>
          (case getNestedNameSpecifier QualifierToRemove of
             None \<Rightarrow> None
           | Some NNS \<Rightarrow>
               (case getAsNamespace NNS of
                  None \<Rightarrow> None
                | Some QualNS \<Rightarrow> Some (getCanonicalDecl UsingNS = getCanonicalDecl QualNS))))"

fun usingsLoop ::
  "SourceManager \<Rightarrow> SourceLocation \<Rightarrow> NestedNameSpecifierLoc \<Rightarrow> string
   \<Rightarrow> UsingDecl list \<Rightarrow> SourceLocation \<Rightarrow> LoopExit" where
  "usingsLoop SM Cur QualifierToRemove Name [] LastUsingLoc = FellThrough LastUsingLoc"
| "usingsLoop SM Cur QualifierToRemove Name (U # Usings) LastUsingLoc =
     (if isBeforeInTranslationUnit SM Cur (getUsingLoc U) then FellThrough LastUsingLoc
      else case sameNamespace U QualifierToRemove of
             None \<Rightarrow> Crashed
           | Some same \<Rightarrow>
               if same \<and> getName U = Name then Returned InsertionPointData_default
               else usingsLoop SM Cur QualifierToRemove Name Usings (getUsingLoc U))"

text \<open>The message of the last error of \<^verbatim>\<open>findInsertionPoint\<close>.\<close>

definition CannotFindPlace :: string where
  \<open>CannotFindPlace = ''Cannot find place to insert "using"''\<close>

text \<open>The part of the function after the loop found no using-declaration to anchor to.\<close>

definition insertAtNamespaceOrTop ::
  "ParsedAST \<Rightarrow> DeclContext \<Rightarrow> Error + InsertionPointData" where
  "insertAtNamespaceOrTop A SelectionDeclContext =
     (let SM = getSourceManager A;
          NS = getEnclosingNamespaceContext (getASTContext A) SelectionDeclContext;
          TLDs = getLocalTopLevelDecls A;
          top = (case TLDs of
                   [] \<Rightarrow> Inl (StringError CannotFindPlace)
                 | D # Ds \<Rightarrow> Inr \<lparr>Loc = getExpansionLoc SM (declBeginLoc D),
                                  Suffix = [CHR 0x0A, CHR 0x0A]\<rparr>)
      in case dyn_cast_NamespaceDecl NS of
           None \<Rightarrow> top
         | Some ND \<Rightarrow>
             (case find (\<lambda>Tok. kind Tok = tok_l_brace)
                     (expandedTokens (getTokens A) (nsSourceRange ND)) of
                None \<Rightarrow> Inl (StringError ''Namespace with no {'')
              | Some Tok \<Rightarrow>
                  if isInvalid (endLocation Tok)
                  then Inl (StringError ''Namespace with no {'')
                  else if \<not> isMacroID (endLocation Tok)
                  then Inr \<lparr>Loc = endLocation Tok, Suffix = [CHR 0x0A]\<rparr>
                  else top))"

definition findInsertionPoint ::
  "Selection \<Rightarrow> NestedNameSpecifierLoc \<Rightarrow> string \<Rightarrow> Error + InsertionPointData" where
  "findInsertionPoint Inputs QualifierToRemove Name =
     (case commonAncestor Inputs of
        None \<Rightarrow> Inl NullDereference
      | Some N \<Rightarrow>
          (let SM = getSourceManager (AST Inputs);
               Usings = TraverseAST (getASTContext (AST Inputs)) SM (nodeDeclContext N)
           in case usingsLoop SM (Cursor Inputs) QualifierToRemove Name Usings InvalidLoc of
                Crashed \<Rightarrow> Inl NullDereference
              | Returned Out \<Rightarrow> Inr Out
              | FellThrough LastUsingLoc \<Rightarrow>
                  if isValid LastUsingLoc
                  then Inr \<lparr>Loc = LastUsingLoc, Suffix = []\<rparr>
                  else insertAtNamespaceOrTop (AST Inputs) (nodeDeclContext N)))"

subsection \<open>The state of the tweak\<close>

text \<open>
  The two members of \<^verbatim>\<open>class AddUsing\<close>, set by \<^verbatim>\<open>prepare\<close> and read by \<^verbatim>\<open>apply\<close>. A new
  object has no qualifier and an empty name.
\<close>

record AddUsing =
  QualifierToRemove :: NestedNameSpecifierLoc
  Name :: string

definition AddUsing_init :: AddUsing where
  "AddUsing_init = \<lparr>QualifierToRemove = emptyQualifierLoc, Name = []\<rparr>"

subsection \<open>AddUsing::prepare\<close>

fun isNestedNameSpecifierLoc :: "DynTypedNode \<Rightarrow> bool" where
  "isNestedNameSpecifierLoc NestedNameSpecifierLocNode = True"
| "isNestedNameSpecifierLoc A = False"

fun isTypeLoc :: "DynTypedNode \<Rightarrow> bool" where
  "isTypeLoc (ElaboratedTypeLocNode Q n) = True"
| "isTypeLoc OtherTypeLocNode = True"
| "isTypeLoc A = False"

text \<open>
  The \<^verbatim>\<open>for\<close> loop of \<^verbatim>\<open>prepare\<close>: from a nested-name-specifier, or from a type that is
  not an elaborated type and lies inside a type or a nested-name-specifier, go to the
  parent; stop anywhere else, and at a node without parent.
\<close>

fun walkUp :: "Node \<Rightarrow> Node" where
  "walkUp (Node A DC None) = Node A DC None"
| "walkUp (Node A DC (Some P)) =
     (case A of
        NestedNameSpecifierLocNode \<Rightarrow> walkUp P
      | ElaboratedTypeLocNode Q n \<Rightarrow> Node A DC (Some P)
      | OtherTypeLocNode \<Rightarrow>
          if isTypeLoc (ASTNode P) \<or> isNestedNameSpecifierLoc (ASTNode P)
          then walkUp P else Node A DC (Some P)
      | DeclRefExprNode Q n \<Rightarrow> Node A DC (Some P)
      | OtherNode \<Rightarrow> Node A DC (Some P))"

text \<open>The assignments to the two members after the loop.\<close>

fun setCandidate :: "DynTypedNode \<Rightarrow> AddUsing \<Rightarrow> AddUsing" where
  "setCandidate (DeclRefExprNode Q n) this = this\<lparr>QualifierToRemove := Q, Name := n\<rparr>"
| "setCandidate (ElaboratedTypeLocNode Q n) this = this\<lparr>QualifierToRemove := Q, Name := n\<rparr>"
| "setCandidate A this = this"

text \<open>The two tests at the end of \<^verbatim>\<open>prepare\<close>, on the members as they are by then.\<close>

definition namespaceQualifier :: "AddUsing \<Rightarrow> bool" where
  "namespaceQualifier this =
     (\<not> (\<not> hasQualifier (QualifierToRemove this)
         \<or> (case getNestedNameSpecifier (QualifierToRemove this) of
               None \<Rightarrow> True
             | Some NNS \<Rightarrow> getAsNamespace NNS = None)
         \<or> Name this = []))"

definition spelledInOneFile :: "SourceManager \<Rightarrow> AddUsing \<Rightarrow> bool" where
  "spelledInOneFile SM this =
     (\<not> (isMacroBodyExpansion SM (getBeginLoc (QualifierToRemove this))
         \<or> \<not> isWrittenInSameFile SM (getBeginLoc (QualifierToRemove this))
                                     (getEndLoc (QualifierToRemove this))))"

text \<open>\<^verbatim>\<open>prepare\<close> returns its verdict and leaves the members as it set them.\<close>

definition AddUsing_prepare :: "Selection \<Rightarrow> AddUsing \<Rightarrow> bool \<times> AddUsing" where
  "AddUsing_prepare Inputs this =
     (let SM = getSourceManager (AST Inputs) in
      case commonAncestor Inputs of
        None \<Rightarrow> (False, this)
      | Some Node0 \<Rightarrow>
          (let this' = setCandidate (ASTNode (walkUp Node0)) this in
           if \<not> namespaceQualifier this' then (False, this')
           else if \<not> spelledInOneFile SM this' then (False, this')
           else (True, this')))"

subsection \<open>Replacements\<close>

record Replacement =
  FilePath :: string
  Offset :: nat
  Length :: nat
  ReplacementText :: string

text \<open>
  Modelled from the spec: the constructor \<^verbatim>\<open>tooling::Replacement(SM, Loc, Length, Text)\<close>
  is outside \<^verbatim>\<open>AddUsing.cpp\<close>. An entry of the specification's EditSet is a
  ``(location, length, replacement-text)'' triple anchored in a source file: the file
  and the offset are those the source manager decomposes the location into.
\<close>

definition mkReplacement ::
  "SourceManager \<Rightarrow> SourceLocation \<Rightarrow> nat \<Rightarrow> string \<Rightarrow> Replacement" where
  "mkReplacement SM L Len Text =
     \<lparr>FilePath = getFilename SM (fst (getDecomposedLoc SM L)),
      Offset = snd (getDecomposedLoc SM L),
      Length = Len,
      ReplacementText = Text\<rparr>"

text \<open>Two entries overlap when their offset ranges share a position.\<close>

definition overlapsWith :: "Replacement \<Rightarrow> Replacement \<Rightarrow> bool" where
  "overlapsWith R1 R2 =
     (Offset R1 + Length R1 > Offset R2 \<and> Offset R1 < Offset R2 + Length R2)"

fun insertByOffset :: "Replacement \<Rightarrow> Replacement list \<Rightarrow> Replacement list" where
  "insertByOffset R [] = [R]"
| "insertByOffset R (X # Xs) =
     (if Offset R < Offset X \<or> (Offset R = Offset X \<and> Length R \<le> Length X)
      then R # X # Xs else X # insertByOffset R Xs)"

text \<open>
  Modelled from the spec: \<^verbatim>\<open>tooling::Replacements::add\<close> is outside \<^verbatim>\<open>AddUsing.cpp\<close>.
  The specification's EditSet is ``an ordered collection of non-overlapping (location,
  length, replacement-text) triples, all anchored within a single source file;
  invariant: no two entries overlap'': an entry of another file than the entries
  present, or one that overlaps an entry present, is refused with an error; any other
  is put in its place by offset.
\<close>

definition Replacements_add ::
  "Replacement \<Rightarrow> Replacement list \<Rightarrow> Error + Replacement list" where
  "Replacements_add R Replaces =
     (if list_ex (\<lambda>X. FilePath X \<noteq> FilePath R) Replaces
      then Inl (ReplacementError wrong_file_path)
      else if list_ex (\<lambda>X. overlapsWith R X) Replaces
      then Inl (ReplacementError overlap_conflict)
      else Inr (insertByOffset R Replaces))"

text \<open>
  \<^verbatim>\<open>Tweak::Effect\<close>: for each file to edit, its name and the replacements to make
  in it.
\<close>

record Effect =
  ApplyEdits :: "(string \<times> Replacement list) list"

text \<open>
  Modelled from the spec: \<^verbatim>\<open>Effect::mainFileEdit\<close> is outside \<^verbatim>\<open>AddUsing.cpp\<close>. The
  Edit Synthesizer of the specification ``returns a single-file edit'', in the file
  being edited: the replacements, under the name of the main file.
\<close>

definition mainFileEdit :: "SourceManager \<Rightarrow> Replacement list \<Rightarrow> Effect" where
  "mainFileEdit SM R = \<lparr>ApplyEdits = [(getFilename SM (getMainFileID SM), R)]\<rparr>"

subsection \<open>AddUsing::apply\<close>

text \<open>
  The text of the using-declaration, as \<^verbatim>\<open>apply\<close> writes it to \<^verbatim>\<open>UsingTextStream\<close>: the
  keyword, the printed specifier, the name, the semicolon, the suffix of the insertion
  point.
\<close>

definition UsingText :: "NestedNameSpecifier \<Rightarrow> string \<Rightarrow> string \<Rightarrow> string" where
  "UsingText NNS Nm Sfx = ''using '' @ print NNS @ Nm @ '';'' @ Sfx"

text \<open>
  The second half of \<^verbatim>\<open>apply\<close>, from the call of \<^verbatim>\<open>findInsertionPoint\<close> on, with the
  replacements \<open>R\<close> made so far.
\<close>

definition addUsingStatement ::
  "Selection \<Rightarrow> AddUsing \<Rightarrow> Replacement list \<Rightarrow> Error + Effect" where
  "addUsingStatement Inputs this R =
     (let SM = getSourceManager (AST Inputs) in
      case findInsertionPoint Inputs (QualifierToRemove this) (Name this) of
        Inl Err \<Rightarrow> Inl Err
      | Inr InsertionPoint \<Rightarrow>
          if isValid (Loc InsertionPoint) then
            (case getNestedNameSpecifier (QualifierToRemove this) of
               None \<Rightarrow> Inl NullDereference
             | Some NNS \<Rightarrow>
                 if getFileID SM (Loc InsertionPoint) \<noteq> getMainFileID SM
                 then Inl AssertionFailure
                 else
                   (case Replacements_add
                           (mkReplacement SM (Loc InsertionPoint) 0
                              (UsingText NNS (Name this) (Suffix InsertionPoint))) R of
                      Inl Err \<Rightarrow> Inl Err
                    | Inr R' \<Rightarrow> Inr (mainFileEdit SM R')))
          else Inr (mainFileEdit SM R))"

text \<open>
  \<^verbatim>\<open>apply\<close>. \<^verbatim>\<open>front()\<close> and \<^verbatim>\<open>back()\<close> of an empty token range fail an assertion.
\<close>

definition AddUsing_apply :: "Selection \<Rightarrow> AddUsing \<Rightarrow> Error + Effect" where
  "AddUsing_apply Inputs this =
     (let SM = getSourceManager (AST Inputs);
          TB = getTokens (AST Inputs)
      in case spelledForExpanded TB
                (expandedTokens TB (getSourceRange (QualifierToRemove this))) of
           None \<Rightarrow> Inl (StringError ''Could not determine length of the qualifier'')
         | Some [] \<Rightarrow> Inl AssertionFailure
         | Some (T # Ts) \<Rightarrow>
             (let SpelledTokens = T # Ts;
                  Len = rangeLength TB (hd SpelledTokens) (last SpelledTokens)
              in case Replacements_add
                        (mkReplacement SM (location (hd SpelledTokens)) Len []) [] of
                   Inl Err \<Rightarrow> Inl Err
                 | Inr R \<Rightarrow> addUsingStatement Inputs this R))"

section \<open>Notions of the specification\<close>

text \<open>
  The using-declarations that the loop of \<^verbatim>\<open>findInsertionPoint\<close> looks at: those of the
  list up to the first one that the cursor is before.
\<close>

definition priorUsings ::
  "SourceManager \<Rightarrow> SourceLocation \<Rightarrow> UsingDecl list \<Rightarrow> UsingDecl list" where
  "priorUsings SM Cur Usings =
     takeWhile (\<lambda>U. \<not> isBeforeInTranslationUnit SM Cur (getUsingLoc U)) Usings"

text \<open>
  A using-declaration is a duplicate for the candidate when it names the same canonical
  namespace and the same name.
\<close>

definition isDuplicate :: "UsingDecl \<Rightarrow> NestedNameSpecifierLoc \<Rightarrow> string \<Rightarrow> bool" where
  "isDuplicate U Q Nm = (sameNamespace U Q = Some True \<and> getName U = Nm)"

text \<open>An insertion location is past the end of a using-declaration.\<close>

definition pastTheEnd :: "SourceManager \<Rightarrow> UsingDecl \<Rightarrow> SourceLocation \<Rightarrow> bool" where
  "pastTheEnd SM U L = isBeforeInTranslationUnit SM (usingEndLoc U) L"

text \<open>
  \<^verbatim>\<open>findInsertionPoint\<close> places the new declaration after a using-declaration: it
  returns a location past the end of it, with an empty suffix.
\<close>

definition insertsAfter ::
  "Selection \<Rightarrow> NestedNameSpecifierLoc \<Rightarrow> string \<Rightarrow> UsingDecl \<Rightarrow> bool" where
  "insertsAfter Inputs Q Nm U =
     (case findInsertionPoint Inputs Q Nm of
        Inl Err \<Rightarrow> False
      | Inr Out \<Rightarrow> pastTheEnd (getSourceManager (AST Inputs)) U (Loc Out) \<and> Suffix Out = [])"

text \<open>
  \<^verbatim>\<open>apply\<close> only deletes: it returns edits, at least one, and each of them replaces
  text by nothing.
\<close>

definition onlyDeletes :: "Selection \<Rightarrow> AddUsing \<Rightarrow> bool" where
  "onlyDeletes Inputs this =
     (case AddUsing_apply Inputs this of
        Inl Err \<Rightarrow> False
      | Inr E \<Rightarrow> concat (map snd (ApplyEdits E)) \<noteq> []
                 \<and> list_all (\<lambda>R. ReplacementText R = []) (concat (map snd (ApplyEdits E))))"

text \<open>
  A candidate of the Qualifier Validator is a chain of namespaces with a name: the chain
  has at least one segment, each of its segments resolves to a namespace, and the name
  is not empty.
\<close>

definition namespaceChain :: "AddUsing \<Rightarrow> bool" where
  "namespaceChain this =
     ((case getNestedNameSpecifier (QualifierToRemove this) of
         None \<Rightarrow> False
       | Some NNS \<Rightarrow> NNS \<noteq> [] \<and> list_all (\<lambda>S. segmentNamespace S \<noteq> None) NNS)
      \<and> Name this \<noteq> [])"

text \<open>No two entries of a list of replacements overlap.\<close>

fun nonOverlapping :: "Replacement list \<Rightarrow> bool" where
  "nonOverlapping [] = True"
| "nonOverlapping (R # Rs) = (list_all (\<lambda>X. \<not> overlapsWith R X \<and> \<not> overlapsWith X R) Rs
                              \<and> nonOverlapping Rs)"

section \<open>Example inputs\<close>

text \<open>
  A source manager for the examples. \<open>FileLoc n\<close> with \<open>n < 1000\<close> is offset \<open>n\<close> of the
  main file \<^verbatim>\<open>test.cpp\<close>; from 1000 on it is offset \<open>n - 1000\<close> of the header \<^verbatim>\<open>n.h\<close>,
  which the one example that has it includes by the first 15 characters of the main
  file, so that in the order of the translation unit the header lies between offsets
  14 and 15 of the main file. \<open>MacroLoc n\<close> is a location in the expansion of a macro
  that is used at offset \<open>n div 2\<close> of the main file and whose text is spelled in the
  main file: in the body of the macro when \<open>n\<close> is odd, in an argument of the macro
  when \<open>n\<close> is even.
\<close>

fun exFileID :: "SourceLocation \<Rightarrow> FileID" where
  "exFileID InvalidLoc = 0"
| "exFileID (FileLoc n) = (if n < 1000 then 1 else 3)"
| "exFileID (MacroLoc n) = 4 + n"

fun exOffset :: "SourceLocation \<Rightarrow> nat" where
  "exOffset InvalidLoc = 0"
| "exOffset (FileLoc n) = (if n < 1000 then n else n - 1000)"
| "exOffset (MacroLoc n) = n div 2"

definition exFileOrder :: "nat \<Rightarrow> nat" where
  "exFileOrder n = (if n < 15 then n else if n < 1000 then n + 1000 else n - 985)"

fun exOrder :: "SourceLocation \<Rightarrow> nat" where
  "exOrder InvalidLoc = 0"
| "exOrder (FileLoc n) = exFileOrder n"
| "exOrder (MacroLoc n) = exFileOrder (n div 2)"

fun exExpansionLoc :: "SourceLocation \<Rightarrow> SourceLocation" where
  "exExpansionLoc (MacroLoc n) = FileLoc (n div 2)"
| "exExpansionLoc L = L"

fun exMacroBody :: "SourceLocation \<Rightarrow> bool" where
  "exMacroBody (MacroLoc n) = odd n"
| "exMacroBody L = False"

fun exDecomposedLoc :: "SourceLocation \<Rightarrow> FileID \<times> nat" where
  "exDecomposedLoc InvalidLoc = (0, 0)"
| "exDecomposedLoc (FileLoc n) = (if n < 1000 then (1, n) else (3, n - 1000))"
| "exDecomposedLoc (MacroLoc n) = (4 + n, 0)"

definition exSM :: SourceManager where
  "exSM =
     \<lparr>getFileID = exFileID,
      getMainFileID = 1,
      isBeforeInTranslationUnit = (\<lambda>A B. exOrder A < exOrder B),
      getExpansionLoc = exExpansionLoc,
      isMacroBodyExpansion = exMacroBody,
      isWrittenInSameFile = (\<lambda>A B. exFileID (exExpansionLoc A) = exFileID (exExpansionLoc B)),
      getDecomposedLoc = exDecomposedLoc,
      getFilename = (\<lambda>F. if F = 1 then ''test.cpp'' else if F = 3 then ''n.h'' else [])\<rparr>"

text \<open>
  A token buffer over the expanded tokens of the main file: the tokens of a range are
  those that begin inside it, every non-empty run of tokens is spelled as it is, and a
  range of tokens is as long as from the beginning of its first token to the end of its
  last.
\<close>

definition tok :: "TokenKind \<Rightarrow> nat \<Rightarrow> nat \<Rightarrow> Token" where
  "tok K B E = \<lparr>kind = K, location = FileLoc B, endLocation = FileLoc E\<rparr>"

definition exTokenBuffer :: "Token list \<Rightarrow> TokenBuffer" where
  "exTokenBuffer Toks =
     \<lparr>expandedTokens = (\<lambda>R. filter (\<lambda>T. exOrder (getBegin R) \<le> exOrder (location T)
                                      \<and> exOrder (location T) \<le> exOrder (getEnd R)) Toks),
      spelledForExpanded = (\<lambda>Ts. if Ts = [] then None else Some Ts),
      rangeLength = (\<lambda>F L. exOffset (endLocation L) - exOffset (location F))\<rparr>"

text \<open>
  The contexts of the examples: everything is inside the translation unit, a context is
  inside itself, and the pairs of \<open>Inside\<close> say what else is inside what.
\<close>

definition exEncloses ::
  "(DeclContext \<times> DeclContext) list \<Rightarrow> DeclContext \<Rightarrow> DeclContext \<Rightarrow> bool" where
  "exEncloses Inside Outer Inner =
     (Outer = TranslationUnitContext \<or> Outer = Inner \<or> (Inner, Outer) \<in> set Inside)"

subsection \<open>The example of the specification\<close>

text \<open>
  \<^verbatim>\<open>namespace a { namespace b { void f(); } } void g() { a::b::f(); }\<close>
  with the cursor on \<^verbatim>\<open>f\<close> of \<^verbatim>\<open>a::b::f\<close> (offset 59). The qualifier \<^verbatim>\<open>a::b::\<close> is at
  offsets 53 to 59, its last token begins at 57. The function \<^verbatim>\<open>g\<close> is context 1; it is
  declared at the top level, so the namespace context around it is the translation unit.
\<close>

definition nsA :: NamespaceDecl where
  "nsA = \<lparr>getCanonicalDecl = 1, scopePath = [''a''],
          nsSourceRange = \<lparr>getBegin = FileLoc 0, getEnd = FileLoc 40\<rparr>\<rparr>"

definition nsB :: NamespaceDecl where
  "nsB = \<lparr>getCanonicalDecl = 2, scopePath = [''a'', ''b''],
          nsSourceRange = \<lparr>getBegin = FileLoc 14, getEnd = FileLoc 38\<rparr>\<rparr>"

definition tokensNested :: "Token list" where
  "tokensNested =
    [tok tok_kw_namespace 0 9, tok tok_identifier 10 11, tok tok_l_brace 12 13,
     tok tok_kw_namespace 14 23, tok tok_identifier 24 25, tok tok_l_brace 26 27,
     tok tok_other 28 32, tok tok_identifier 33 34, tok tok_other 34 35,
     tok tok_other 35 36, tok tok_other 36 37, tok tok_r_brace 38 39,
     tok tok_r_brace 40 41, tok tok_other 42 46, tok tok_identifier 47 48,
     tok tok_other 48 49, tok tok_other 49 50, tok tok_l_brace 51 52,
     tok tok_identifier 53 54, tok tok_coloncolon 54 56, tok tok_identifier 56 57,
     tok tok_coloncolon 57 59, tok tok_identifier 59 60, tok tok_other 60 61,
     tok tok_other 61 62, tok tok_other 62 63, tok tok_r_brace 64 65]"

definition declsNested :: "Decl list" where
  "declsNested =
     [Decl TranslationUnitContext (NamespaceDeclKind nsA) (FileLoc 0)
        [Decl (NamespaceContext nsA) (NamespaceDeclKind nsB) (FileLoc 14)
           [Decl (NamespaceContext nsB) OtherDeclKind (FileLoc 28) []]],
      Decl TranslationUnitContext OtherDeclKind (FileLoc 42) []]"

definition qualifierNested :: NestedNameSpecifierLoc where
  "qualifierNested =
     \<lparr>getNestedNameSpecifier = Some [NamespaceSegment nsA, NamespaceSegment nsB],
      getBeginLoc = FileLoc 53, getEndLoc = FileLoc 57\<rparr>"

definition astNested :: ParsedAST where
  "astNested =
     \<lparr>getSourceManager = exSM,
      getASTContext =
        \<lparr>getTraversalScope = declsNested,
         Encloses = exEncloses [(NamespaceContext nsB, NamespaceContext nsA)],
         getEnclosingNamespaceContext =
           (\<lambda>DC. case DC of OtherContext n \<Rightarrow> TranslationUnitContext | _ \<Rightarrow> DC)\<rparr>,
      getTokens = exTokenBuffer tokensNested,
      getLocalTopLevelDecls = declsNested\<rparr>"

definition inputsNested :: Selection where
  "inputsNested =
     \<lparr>AST = astNested,
      commonAncestor =
        Some (Node (DeclRefExprNode qualifierNested ''f'') (OtherContext 1)
                (Some (Node OtherNode (OtherContext 1) None))),
      Cursor = FileLoc 59\<rparr>"

definition thisNested :: AddUsing where
  "thisNested = \<lparr>QualifierToRemove = qualifierNested, Name = ''f''\<rparr>"

text \<open>
  What clangd does with a tweak: \<^verbatim>\<open>prepare\<close> on a new object, and \<^verbatim>\<open>apply\<close> on that
  object if \<^verbatim>\<open>prepare\<close> returned true. \<open>None\<close> is the outcome ``not applicable''.
\<close>

definition runTweak :: "Selection \<Rightarrow> (Error + Effect) option" where
  "runTweak Inputs =
     (case AddUsing_prepare Inputs AddUsing_init of
        (True, this) \<Rightarrow> Some (AddUsing_apply Inputs this)
      | (False, this) \<Rightarrow> None)"

text \<open>The replacements of an outcome of \<^verbatim>\<open>apply\<close>, none when it is an error.\<close>

definition editsOf :: "Error + Effect \<Rightarrow> Replacement list" where
  "editsOf Res = (case Res of Inl Err \<Rightarrow> [] | Inr E \<Rightarrow> concat (map snd (ApplyEdits E)))"

text \<open>The replacements that the tweak makes on a selection, none when it makes no edit.\<close>

definition tweakEdits :: "Selection \<Rightarrow> Replacement list" where
  "tweakEdits Inputs = (case runTweak Inputs of None \<Rightarrow> [] | Some Res \<Rightarrow> editsOf Res)"

text \<open>
  The edits that the specification expects in its example: the deletion of \<^verbatim>\<open>a::b::\<close>, and
  the insertion right after the opening brace of \<^verbatim>\<open>namespace b\<close> (offset 27).
\<close>

definition expectedDeletion :: Replacement where
  "expectedDeletion =
     \<lparr>FilePath = ''test.cpp'', Offset = 53, Length = 6, ReplacementText = []\<rparr>"

definition expectedInsertion :: Replacement where
  "expectedInsertion =
     \<lparr>FilePath = ''test.cpp'', Offset = 27, Length = 0,
      ReplacementText = ''using a::b::f;'' @ [CHR 0x0A]\<rparr>"

text \<open>
  A variant of the example: a token buffer that cannot map the qualifier to spelled
  tokens.
\<close>

definition inputsUnmapped :: Selection where
  "inputsUnmapped =
     inputsNested\<lparr>AST := astNested\<lparr>getTokens :=
       (exTokenBuffer tokensNested)\<lparr>spelledForExpanded := (\<lambda>Ts. None)\<rparr>\<rparr>\<rparr>"

subsection \<open>A using-declaration before the cursor\<close>

text \<open>
  \<^verbatim>\<open>namespace a { void f(); void h(); } using a::h; void g() { a::f(); }\<close>
  with the cursor on \<^verbatim>\<open>f\<close> of \<^verbatim>\<open>a::f\<close> (offset 62). The declaration \<^verbatim>\<open>using a::h\<close> begins
  at offset 36 and its last token at 45.
\<close>

definition nsAnchorA :: NamespaceDecl where
  "nsAnchorA = \<lparr>getCanonicalDecl = 1, scopePath = [''a''],
                nsSourceRange = \<lparr>getBegin = FileLoc 0, getEnd = FileLoc 34\<rparr>\<rparr>"

definition usingAnchor :: UsingDecl where
  "usingAnchor =
     \<lparr>getUsingLoc = FileLoc 36, usingEndLoc = FileLoc 45,
      getQualifier = [NamespaceSegment nsAnchorA], getName = ''h''\<rparr>"

definition tokensAnchor :: "Token list" where
  "tokensAnchor =
    [tok tok_kw_namespace 0 9, tok tok_identifier 10 11, tok tok_l_brace 12 13,
     tok tok_other 14 18, tok tok_identifier 19 20, tok tok_other 20 21,
     tok tok_other 21 22, tok tok_other 22 23, tok tok_other 24 28,
     tok tok_identifier 29 30, tok tok_other 30 31, tok tok_other 31 32,
     tok tok_other 32 33, tok tok_r_brace 34 35, tok tok_other 36 41,
     tok tok_identifier 42 43, tok tok_coloncolon 43 45, tok tok_identifier 45 46,
     tok tok_other 46 47, tok tok_other 48 52, tok tok_identifier 53 54,
     tok tok_other 54 55, tok tok_other 55 56, tok tok_l_brace 57 58,
     tok tok_identifier 59 60, tok tok_coloncolon 60 62, tok tok_identifier 62 63,
     tok tok_other 63 64, tok tok_other 64 65, tok tok_other 65 66, tok tok_r_brace 67 68]"

definition declsAnchor :: "Decl list" where
  "declsAnchor =
     [Decl TranslationUnitContext (NamespaceDeclKind nsAnchorA) (FileLoc 0)
        [Decl (NamespaceContext nsAnchorA) OtherDeclKind (FileLoc 14) [],
         Decl (NamespaceContext nsAnchorA) OtherDeclKind (FileLoc 24) []],
      Decl TranslationUnitContext (UsingDeclKind usingAnchor) (FileLoc 36) [],
      Decl TranslationUnitContext OtherDeclKind (FileLoc 48) []]"

definition qualifierAnchor :: NestedNameSpecifierLoc where
  "qualifierAnchor =
     \<lparr>getNestedNameSpecifier = Some [NamespaceSegment nsAnchorA],
      getBeginLoc = FileLoc 59, getEndLoc = FileLoc 60\<rparr>"

definition inputsAnchor :: Selection where
  "inputsAnchor =
     \<lparr>AST =
        \<lparr>getSourceManager = exSM,
         getASTContext =
           \<lparr>getTraversalScope = declsAnchor,
            Encloses = exEncloses [],
            getEnclosingNamespaceContext =
              (\<lambda>DC. case DC of OtherContext n \<Rightarrow> TranslationUnitContext | _ \<Rightarrow> DC)\<rparr>,
         getTokens = exTokenBuffer tokensAnchor,
         getLocalTopLevelDecls = declsAnchor\<rparr>,
      commonAncestor =
        Some (Node (DeclRefExprNode qualifierAnchor ''f'') (OtherContext 1)
                (Some (Node OtherNode (OtherContext 1) None))),
      Cursor = FileLoc 62\<rparr>"

subsection \<open>A using-declaration for the same name\<close>

definition nsShortA :: NamespaceDecl where
  "nsShortA = \<lparr>getCanonicalDecl = 1, scopePath = [''a''],
               nsSourceRange = \<lparr>getBegin = FileLoc 0, getEnd = FileLoc 24\<rparr>\<rparr>"

text \<open>
  \<^verbatim>\<open>namespace a { void f(); } using a::f; void g() { a::f(); }\<close>
  with the cursor on \<^verbatim>\<open>f\<close> of \<^verbatim>\<open>a::f\<close> (offset 52). The declaration \<^verbatim>\<open>using a::f\<close> is at
  the top level, at offset 26.
\<close>

definition usingDuplicate :: UsingDecl where
  "usingDuplicate =
     \<lparr>getUsingLoc = FileLoc 26, usingEndLoc = FileLoc 35,
      getQualifier = [NamespaceSegment nsShortA], getName = ''f''\<rparr>"

definition tokensDuplicate :: "Token list" where
  "tokensDuplicate =
    [tok tok_kw_namespace 0 9, tok tok_identifier 10 11, tok tok_l_brace 12 13,
     tok tok_other 14 18, tok tok_identifier 19 20, tok tok_other 20 21,
     tok tok_other 21 22, tok tok_other 22 23, tok tok_r_brace 24 25, tok tok_other 26 31,
     tok tok_identifier 32 33, tok tok_coloncolon 33 35, tok tok_identifier 35 36,
     tok tok_other 36 37, tok tok_other 38 42, tok tok_identifier 43 44,
     tok tok_other 44 45, tok tok_other 45 46, tok tok_l_brace 47 48,
     tok tok_identifier 49 50, tok tok_coloncolon 50 52, tok tok_identifier 52 53,
     tok tok_other 53 54, tok tok_other 54 55, tok tok_other 55 56, tok tok_r_brace 57 58]"

definition declsDuplicate :: "Decl list" where
  "declsDuplicate =
     [Decl TranslationUnitContext (NamespaceDeclKind nsShortA) (FileLoc 0)
        [Decl (NamespaceContext nsShortA) OtherDeclKind (FileLoc 14) []],
      Decl TranslationUnitContext (UsingDeclKind usingDuplicate) (FileLoc 26) [],
      Decl TranslationUnitContext OtherDeclKind (FileLoc 38) []]"

definition qualifierDuplicate :: NestedNameSpecifierLoc where
  "qualifierDuplicate =
     \<lparr>getNestedNameSpecifier = Some [NamespaceSegment nsShortA],
      getBeginLoc = FileLoc 49, getEndLoc = FileLoc 50\<rparr>"

definition inputsDuplicate :: Selection where
  "inputsDuplicate =
     \<lparr>AST =
        \<lparr>getSourceManager = exSM,
         getASTContext =
           \<lparr>getTraversalScope = declsDuplicate,
            Encloses = exEncloses [],
            getEnclosingNamespaceContext =
              (\<lambda>DC. case DC of OtherContext n \<Rightarrow> TranslationUnitContext | _ \<Rightarrow> DC)\<rparr>,
         getTokens = exTokenBuffer tokensDuplicate,
         getLocalTopLevelDecls = declsDuplicate\<rparr>,
      commonAncestor =
        Some (Node (DeclRefExprNode qualifierDuplicate ''f'') (OtherContext 1)
                (Some (Node OtherNode (OtherContext 1) None))),
      Cursor = FileLoc 52\<rparr>"

definition thisDuplicate :: AddUsing where
  "thisDuplicate = \<lparr>QualifierToRemove = qualifierDuplicate, Name = ''f''\<rparr>"

subsection \<open>A namespace first declared in a header, and one opened by a macro\<close>

text \<open>
  The header \<^verbatim>\<open>n.h\<close> is \<^verbatim>\<open>namespace n { }\<close>, and the main file is
  \<^verbatim>\<open>#include "n.h"\<close>, a line break, and
  \<^verbatim>\<open>namespace a { void f(); } namespace n { void g() { a::f(); } }\<close>
  with the cursor on \<^verbatim>\<open>f\<close> of \<^verbatim>\<open>a::f\<close> (offset 69). The namespace context around \<^verbatim>\<open>g\<close>
  (context 1) is the first declaration of \<^verbatim>\<open>n\<close>, the one of the header, and the token
  buffer has the tokens of the main file only.
\<close>

definition nsHeaderA :: NamespaceDecl where
  "nsHeaderA = \<lparr>getCanonicalDecl = 1, scopePath = [''a''],
                nsSourceRange = \<lparr>getBegin = FileLoc 15, getEnd = FileLoc 39\<rparr>\<rparr>"

definition nsHeaderN :: NamespaceDecl where
  "nsHeaderN = \<lparr>getCanonicalDecl = 2, scopePath = [''n''],
                nsSourceRange = \<lparr>getBegin = FileLoc 1000, getEnd = FileLoc 1014\<rparr>\<rparr>"

definition nsMainN :: NamespaceDecl where
  "nsMainN = \<lparr>getCanonicalDecl = 2, scopePath = [''n''],
              nsSourceRange = \<lparr>getBegin = FileLoc 41, getEnd = FileLoc 76\<rparr>\<rparr>"

definition tokensHeader :: "Token list" where
  "tokensHeader =
    [tok tok_kw_namespace 15 24, tok tok_identifier 25 26, tok tok_l_brace 27 28,
     tok tok_other 29 33, tok tok_identifier 34 35, tok tok_other 35 36,
     tok tok_other 36 37, tok tok_other 37 38, tok tok_r_brace 39 40,
     tok tok_kw_namespace 41 50, tok tok_identifier 51 52, tok tok_l_brace 53 54,
     tok tok_other 55 59, tok tok_identifier 60 61, tok tok_other 61 62,
     tok tok_other 62 63, tok tok_l_brace 64 65, tok tok_identifier 66 67,
     tok tok_coloncolon 67 69, tok tok_identifier 69 70, tok tok_other 70 71,
     tok tok_other 71 72, tok tok_other 72 73, tok tok_r_brace 74 75, tok tok_r_brace 76 77]"

definition declsHeader :: "Decl list" where
  "declsHeader =
     [Decl TranslationUnitContext (NamespaceDeclKind nsHeaderA) (FileLoc 15)
        [Decl (NamespaceContext nsHeaderA) OtherDeclKind (FileLoc 29) []],
      Decl TranslationUnitContext (NamespaceDeclKind nsMainN) (FileLoc 41)
        [Decl (NamespaceContext nsMainN) OtherDeclKind (FileLoc 55) []]]"

definition qualifierHeader :: NestedNameSpecifierLoc where
  "qualifierHeader =
     \<lparr>getNestedNameSpecifier = Some [NamespaceSegment nsHeaderA],
      getBeginLoc = FileLoc 66, getEndLoc = FileLoc 67\<rparr>"

definition inputsHeader :: Selection where
  "inputsHeader =
     \<lparr>AST =
        \<lparr>getSourceManager = exSM,
         getASTContext =
           \<lparr>getTraversalScope = declsHeader,
            Encloses = exEncloses
              [(OtherContext 1, NamespaceContext nsMainN),
               (OtherContext 1, NamespaceContext nsHeaderN),
               (NamespaceContext nsMainN, NamespaceContext nsHeaderN),
               (NamespaceContext nsHeaderN, NamespaceContext nsMainN)],
            getEnclosingNamespaceContext =
              (\<lambda>DC. case DC of OtherContext n \<Rightarrow> NamespaceContext nsHeaderN
                              | NamespaceContext ND \<Rightarrow>
                                  if ND = nsMainN then NamespaceContext nsHeaderN else DC
                              | TranslationUnitContext \<Rightarrow> DC)\<rparr>,
         getTokens = exTokenBuffer tokensHeader,
         getLocalTopLevelDecls = declsHeader\<rparr>,
      commonAncestor =
        Some (Node (DeclRefExprNode qualifierHeader ''f'') (OtherContext 1)
                (Some (Node OtherNode (OtherContext 1) None))),
      Cursor = FileLoc 69\<rparr>"

definition thisHeader :: AddUsing where
  "thisHeader = \<lparr>QualifierToRemove = qualifierHeader, Name = ''f''\<rparr>"

text \<open>
  The same main file with a header that does not declare \<^verbatim>\<open>namespace n\<close>: the namespace
  context around \<^verbatim>\<open>g\<close> is the declaration of \<^verbatim>\<open>n\<close> in the main file, whose opening brace
  ends at offset 54.
\<close>

definition inputsInner :: Selection where
  "inputsInner =
     inputsHeader\<lparr>AST := (AST inputsHeader)\<lparr>getASTContext :=
       (getASTContext (AST inputsHeader))\<lparr>getEnclosingNamespaceContext :=
         (\<lambda>DC. case DC of OtherContext n \<Rightarrow> NamespaceContext nsMainN | _ \<Rightarrow> DC)\<rparr>\<rparr>\<rparr>"

text \<open>
  The main file is \<^verbatim>\<open>#define OPEN namespace n {\<close>, a line break, and
  \<^verbatim>\<open>namespace a { void f(); } OPEN void g() { a::f(); } }\<close>
  with the cursor on \<^verbatim>\<open>f\<close> of \<^verbatim>\<open>a::f\<close> (offset 72). The first three tokens of
  \<^verbatim>\<open>namespace n\<close> come from the body of the macro, expanded at offset 53.
\<close>

definition mtok :: "TokenKind \<Rightarrow> nat \<Rightarrow> Token" where
  "mtok K n = \<lparr>kind = K, location = MacroLoc n, endLocation = MacroLoc n\<rparr>"

definition nsMacroA :: NamespaceDecl where
  "nsMacroA = \<lparr>getCanonicalDecl = 1, scopePath = [''a''],
               nsSourceRange = \<lparr>getBegin = FileLoc 27, getEnd = FileLoc 51\<rparr>\<rparr>"

definition nsMacroN :: NamespaceDecl where
  "nsMacroN = \<lparr>getCanonicalDecl = 2, scopePath = [''n''],
               nsSourceRange = \<lparr>getBegin = MacroLoc 107, getEnd = FileLoc 79\<rparr>\<rparr>"

definition tokensMacro :: "Token list" where
  "tokensMacro =
    [tok tok_kw_namespace 27 36, tok tok_identifier 37 38, tok tok_l_brace 39 40,
     tok tok_other 41 45, tok tok_identifier 46 47, tok tok_other 47 48,
     tok tok_other 48 49, tok tok_other 49 50, tok tok_r_brace 51 52,
     mtok tok_kw_namespace 107, mtok tok_identifier 107, mtok tok_l_brace 107,
     tok tok_other 58 62, tok tok_identifier 63 64,
     tok tok_other 64 65, tok tok_other 65 66, tok tok_l_brace 67 68,
     tok tok_identifier 69 70, tok tok_coloncolon 70 72, tok tok_identifier 72 73,
     tok tok_other 73 74, tok tok_other 74 75, tok tok_other 75 76, tok tok_r_brace 77 78,
     tok tok_r_brace 79 80]"

definition declsMacro :: "Decl list" where
  "declsMacro =
     [Decl TranslationUnitContext (NamespaceDeclKind nsMacroA) (FileLoc 27)
        [Decl (NamespaceContext nsMacroA) OtherDeclKind (FileLoc 41) []],
      Decl TranslationUnitContext (NamespaceDeclKind nsMacroN) (MacroLoc 107)
        [Decl (NamespaceContext nsMacroN) OtherDeclKind (FileLoc 58) []]]"

definition qualifierMacro :: NestedNameSpecifierLoc where
  "qualifierMacro =
     \<lparr>getNestedNameSpecifier = Some [NamespaceSegment nsMacroA],
      getBeginLoc = FileLoc 69, getEndLoc = FileLoc 70\<rparr>"

definition inputsMacro :: Selection where
  "inputsMacro =
     \<lparr>AST =
        \<lparr>getSourceManager = exSM,
         getASTContext =
           \<lparr>getTraversalScope = declsMacro,
            Encloses = exEncloses [(OtherContext 1, NamespaceContext nsMacroN)],
            getEnclosingNamespaceContext =
              (\<lambda>DC. case DC of OtherContext n \<Rightarrow> NamespaceContext nsMacroN | _ \<Rightarrow> DC)\<rparr>,
         getTokens = exTokenBuffer tokensMacro,
         getLocalTopLevelDecls = declsMacro\<rparr>,
      commonAncestor =
        Some (Node (DeclRefExprNode qualifierMacro ''f'') (OtherContext 1)
                (Some (Node OtherNode (OtherContext 1) None))),
      Cursor = FileLoc 72\<rparr>"

subsection \<open>A using-declaration of a member of a base class\<close>

text \<open>
  \<^verbatim>\<open>namespace a { void h(); } struct B { void f(); };
   struct D : B { using B::f; void g() { a::h(); } };\<close>
  on one line, with the cursor on \<^verbatim>\<open>h\<close> of \<^verbatim>\<open>a::h\<close> (offset 91). The declaration
  \<^verbatim>\<open>using B::f\<close> (offset 65) is a member of \<^verbatim>\<open>D\<close> (context 3), which encloses the member
  function \<^verbatim>\<open>g\<close> (context 1); its qualifier \<^verbatim>\<open>B::\<close> names a type.
\<close>

definition usingMember :: UsingDecl where
  "usingMember =
     \<lparr>getUsingLoc = FileLoc 65, usingEndLoc = FileLoc 74,
      getQualifier = [TypeSegment ''B''], getName = ''f''\<rparr>"

definition tokensMember :: "Token list" where
  "tokensMember =
    [tok tok_kw_namespace 0 9, tok tok_identifier 10 11, tok tok_l_brace 12 13,
     tok tok_other 14 18, tok tok_identifier 19 20, tok tok_other 20 21,
     tok tok_other 21 22, tok tok_other 22 23, tok tok_r_brace 24 25, tok tok_other 26 32,
     tok tok_identifier 33 34, tok tok_l_brace 35 36, tok tok_other 37 41,
     tok tok_identifier 42 43, tok tok_other 43 44, tok tok_other 44 45,
     tok tok_other 45 46, tok tok_r_brace 47 48, tok tok_other 48 49, tok tok_other 50 56,
     tok tok_identifier 57 58, tok tok_other 59 60, tok tok_identifier 61 62,
     tok tok_l_brace 63 64, tok tok_other 65 70, tok tok_identifier 71 72,
     tok tok_coloncolon 72 74, tok tok_identifier 74 75, tok tok_other 75 76,
     tok tok_other 77 81, tok tok_identifier 82 83, tok tok_other 83 84,
     tok tok_other 84 85, tok tok_l_brace 86 87, tok tok_identifier 88 89,
     tok tok_coloncolon 89 91, tok tok_identifier 91 92, tok tok_other 92 93,
     tok tok_other 93 94, tok tok_other 94 95, tok tok_r_brace 96 97,
     tok tok_r_brace 98 99, tok tok_other 99 100]"

definition declsMember :: "Decl list" where
  "declsMember =
     [Decl TranslationUnitContext (NamespaceDeclKind nsShortA) (FileLoc 0)
        [Decl (NamespaceContext nsShortA) OtherDeclKind (FileLoc 14) []],
      Decl TranslationUnitContext OtherDeclKind (FileLoc 26)
        [Decl (OtherContext 2) OtherDeclKind (FileLoc 37) []],
      Decl TranslationUnitContext OtherDeclKind (FileLoc 50)
        [Decl (OtherContext 3) (UsingDeclKind usingMember) (FileLoc 65) [],
         Decl (OtherContext 3) OtherDeclKind (FileLoc 77) []]]"

definition qualifierMember :: NestedNameSpecifierLoc where
  "qualifierMember =
     \<lparr>getNestedNameSpecifier = Some [NamespaceSegment nsShortA],
      getBeginLoc = FileLoc 88, getEndLoc = FileLoc 89\<rparr>"

definition inputsMember :: Selection where
  "inputsMember =
     \<lparr>AST =
        \<lparr>getSourceManager = exSM,
         getASTContext =
           \<lparr>getTraversalScope = declsMember,
            Encloses = exEncloses [(OtherContext 1, OtherContext 3)],
            getEnclosingNamespaceContext =
              (\<lambda>DC. case DC of OtherContext n \<Rightarrow> TranslationUnitContext | _ \<Rightarrow> DC)\<rparr>,
         getTokens = exTokenBuffer tokensMember,
         getLocalTopLevelDecls = declsMember\<rparr>,
      commonAncestor =
        Some (Node (DeclRefExprNode qualifierMember ''h'') (OtherContext 1)
                (Some (Node OtherNode (OtherContext 1) None))),
      Cursor = FileLoc 91\<rparr>"

text \<open>
  The same source with one more member of \<^verbatim>\<open>D\<close>,
  \<^verbatim>\<open>namespace a { void h(); } struct B { void f(); };
   struct D : B { using B::f; using a::h; void g() { a::h(); } };\<close>
  on one line, with the cursor on \<^verbatim>\<open>h\<close> of \<^verbatim>\<open>a::h\<close> in \<^verbatim>\<open>g\<close> (offset 103). The
  declaration \<^verbatim>\<open>using a::h\<close> (offset 77) follows \<^verbatim>\<open>using B::f\<close> (offset 65).
\<close>

definition usingAfterMember :: UsingDecl where
  "usingAfterMember =
     \<lparr>getUsingLoc = FileLoc 77, usingEndLoc = FileLoc 86,
      getQualifier = [NamespaceSegment nsShortA], getName = ''h''\<rparr>"

definition tokensAfterMember :: "Token list" where
  "tokensAfterMember =
    [tok tok_kw_namespace 0 9, tok tok_identifier 10 11, tok tok_l_brace 12 13,
     tok tok_other 14 18, tok tok_identifier 19 20, tok tok_other 20 21,
     tok tok_other 21 22, tok tok_other 22 23, tok tok_r_brace 24 25, tok tok_other 26 32,
     tok tok_identifier 33 34, tok tok_l_brace 35 36, tok tok_other 37 41,
     tok tok_identifier 42 43, tok tok_other 43 44, tok tok_other 44 45,
     tok tok_other 45 46, tok tok_r_brace 47 48, tok tok_other 48 49, tok tok_other 50 56,
     tok tok_identifier 57 58, tok tok_other 59 60, tok tok_identifier 61 62,
     tok tok_l_brace 63 64, tok tok_other 65 70, tok tok_identifier 71 72,
     tok tok_coloncolon 72 74, tok tok_identifier 74 75, tok tok_other 75 76,
     tok tok_other 77 82, tok tok_identifier 83 84, tok tok_coloncolon 84 86,
     tok tok_identifier 86 87, tok tok_other 87 88, tok tok_other 89 93,
     tok tok_identifier 94 95, tok tok_other 95 96, tok tok_other 96 97,
     tok tok_l_brace 98 99, tok tok_identifier 100 101, tok tok_coloncolon 101 103,
     tok tok_identifier 103 104, tok tok_other 104 105, tok tok_other 105 106,
     tok tok_other 106 107, tok tok_r_brace 108 109, tok tok_r_brace 110 111,
     tok tok_other 111 112]"

definition declsAfterMember :: "Decl list" where
  "declsAfterMember =
     [Decl TranslationUnitContext (NamespaceDeclKind nsShortA) (FileLoc 0)
        [Decl (NamespaceContext nsShortA) OtherDeclKind (FileLoc 14) []],
      Decl TranslationUnitContext OtherDeclKind (FileLoc 26)
        [Decl (OtherContext 2) OtherDeclKind (FileLoc 37) []],
      Decl TranslationUnitContext OtherDeclKind (FileLoc 50)
        [Decl (OtherContext 3) (UsingDeclKind usingMember) (FileLoc 65) [],
         Decl (OtherContext 3) (UsingDeclKind usingAfterMember) (FileLoc 77) [],
         Decl (OtherContext 3) OtherDeclKind (FileLoc 89) []]]"

definition qualifierAfterMember :: NestedNameSpecifierLoc where
  "qualifierAfterMember =
     \<lparr>getNestedNameSpecifier = Some [NamespaceSegment nsShortA],
      getBeginLoc = FileLoc 100, getEndLoc = FileLoc 101\<rparr>"

definition inputsAfterMember :: Selection where
  "inputsAfterMember =
     \<lparr>AST =
        \<lparr>getSourceManager = exSM,
         getASTContext =
           \<lparr>getTraversalScope = declsAfterMember,
            Encloses = exEncloses [(OtherContext 1, OtherContext 3)],
            getEnclosingNamespaceContext =
              (\<lambda>DC. case DC of OtherContext n \<Rightarrow> TranslationUnitContext | _ \<Rightarrow> DC)\<rparr>,
         getTokens = exTokenBuffer tokensAfterMember,
         getLocalTopLevelDecls = declsAfterMember\<rparr>,
      commonAncestor =
        Some (Node (DeclRefExprNode qualifierAfterMember ''h'') (OtherContext 1)
                (Some (Node OtherNode (OtherContext 1) None))),
      Cursor = FileLoc 103\<rparr>"

definition thisAfterMember :: AddUsing where
  "thisAfterMember = \<lparr>QualifierToRemove = qualifierAfterMember, Name = ''h''\<rparr>"

subsection \<open>A qualifier that is a part of a macro expansion\<close>

text \<open>
  The main file is \<^verbatim>\<open>#define M(x) x::f\<close>, a line break, and
  \<^verbatim>\<open>namespace a { void f(); } using a::f; void g() { M(a)(); }\<close>
  with the cursor on \<^verbatim>\<open>a\<close> of \<^verbatim>\<open>M(a)\<close> (offset 69). The macro is used at offset 67 and
  expands to \<^verbatim>\<open>a::f\<close>: the token \<^verbatim>\<open>a\<close> of the qualifier comes from the argument of the
  macro, the token \<^verbatim>\<open>::\<close> from its body, as does \<^verbatim>\<open>f\<close>. The two tokens of the qualifier
  are only a part of the expansion, and the token buffer has no spelled tokens for a
  run of tokens that has a token of a macro expansion in it. The declaration
  \<^verbatim>\<open>using a::f\<close> is at the top level, at offset 44.
\<close>

definition nsPartialA :: NamespaceDecl where
  "nsPartialA = \<lparr>getCanonicalDecl = 1, scopePath = [''a''],
                 nsSourceRange = \<lparr>getBegin = FileLoc 18, getEnd = FileLoc 42\<rparr>\<rparr>"

definition usingPartial :: UsingDecl where
  "usingPartial =
     \<lparr>getUsingLoc = FileLoc 44, usingEndLoc = FileLoc 53,
      getQualifier = [NamespaceSegment nsPartialA], getName = ''f''\<rparr>"

definition tokensPartial :: "Token list" where
  "tokensPartial =
    [tok tok_kw_namespace 18 27, tok tok_identifier 28 29, tok tok_l_brace 30 31,
     tok tok_other 32 36, tok tok_identifier 37 38, tok tok_other 38 39,
     tok tok_other 39 40, tok tok_other 40 41, tok tok_r_brace 42 43, tok tok_other 44 49,
     tok tok_identifier 50 51, tok tok_coloncolon 51 53, tok tok_identifier 53 54,
     tok tok_other 54 55, tok tok_other 56 60, tok tok_identifier 61 62,
     tok tok_other 62 63, tok tok_other 63 64, tok tok_l_brace 65 66,
     mtok tok_identifier 134, mtok tok_coloncolon 135, mtok tok_identifier 135,
     tok tok_other 71 72, tok tok_other 72 73, tok tok_other 73 74,
     tok tok_r_brace 75 76]"

definition declsPartial :: "Decl list" where
  "declsPartial =
     [Decl TranslationUnitContext (NamespaceDeclKind nsPartialA) (FileLoc 18)
        [Decl (NamespaceContext nsPartialA) OtherDeclKind (FileLoc 32) []],
      Decl TranslationUnitContext (UsingDeclKind usingPartial) (FileLoc 44) [],
      Decl TranslationUnitContext OtherDeclKind (FileLoc 56) []]"

definition qualifierPartial :: NestedNameSpecifierLoc where
  "qualifierPartial =
     \<lparr>getNestedNameSpecifier = Some [NamespaceSegment nsPartialA],
      getBeginLoc = MacroLoc 134, getEndLoc = MacroLoc 135\<rparr>"

definition tokenBufferPartial :: TokenBuffer where
  "tokenBufferPartial =
     \<lparr>expandedTokens =
        (\<lambda>R. if R = getSourceRange qualifierPartial
             then [mtok tok_identifier 134, mtok tok_coloncolon 135]
             else expandedTokens (exTokenBuffer tokensPartial) R),
      spelledForExpanded =
        (\<lambda>Ts. if list_ex (\<lambda>T. isMacroID (location T)) Ts then None
              else spelledForExpanded (exTokenBuffer tokensPartial) Ts),
      rangeLength = rangeLength (exTokenBuffer tokensPartial)\<rparr>"

definition inputsPartial :: Selection where
  "inputsPartial =
     \<lparr>AST =
        \<lparr>getSourceManager = exSM,
         getASTContext =
           \<lparr>getTraversalScope = declsPartial,
            Encloses = exEncloses [],
            getEnclosingNamespaceContext =
              (\<lambda>DC. case DC of OtherContext n \<Rightarrow> TranslationUnitContext | _ \<Rightarrow> DC)\<rparr>,
         getTokens = tokenBufferPartial,
         getLocalTopLevelDecls = declsPartial\<rparr>,
      commonAncestor =
        Some (Node (DeclRefExprNode qualifierPartial ''f'') (OtherContext 1)
                (Some (Node OtherNode (OtherContext 1) None))),
      Cursor = FileLoc 69\<rparr>"

definition thisPartial :: AddUsing where
  "thisPartial = \<lparr>QualifierToRemove = qualifierPartial, Name = ''f''\<rparr>"

subsection \<open>A qualifier written through a macro\<close>

text \<open>
  The selection of the first example with other locations for the qualifier, as
  \<^verbatim>\<open>prepare\<close> meets them when \<^verbatim>\<open>a::b::f\<close> is reached through a macro expanded at offset
  53 of the main file: once with the qualifier an argument of the macro
  (\<^verbatim>\<open>#define M(x) x\<close> and \<^verbatim>\<open>M(a::b::f)\<close>), once with the qualifier coming from the body of
  the macro (\<^verbatim>\<open>#define NS a::b\<close> and \<^verbatim>\<open>NS::f\<close>); and, third, with a qualifier that begins
  in the main file and ends in the header.
\<close>

definition inputsMacroArgument :: Selection where
  "inputsMacroArgument =
     inputsNested\<lparr>commonAncestor :=
       Some (Node (DeclRefExprNode
                     (qualifierNested\<lparr>getBeginLoc := MacroLoc 106, getEndLoc := MacroLoc 106\<rparr>)
                     ''f'')
               (OtherContext 1) (Some (Node OtherNode (OtherContext 1) None)))\<rparr>"

definition inputsMacroBody :: Selection where
  "inputsMacroBody =
     inputsNested\<lparr>commonAncestor :=
       Some (Node (DeclRefExprNode
                     (qualifierNested\<lparr>getBeginLoc := MacroLoc 107, getEndLoc := MacroLoc 107\<rparr>)
                     ''f'')
               (OtherContext 1) (Some (Node OtherNode (OtherContext 1) None)))\<rparr>"

definition inputsTwoFiles :: Selection where
  "inputsTwoFiles =
     inputsNested\<lparr>commonAncestor :=
       Some (Node (DeclRefExprNode
                     (qualifierNested\<lparr>getBeginLoc := FileLoc 53, getEndLoc := FileLoc 1004\<rparr>)
                     ''f'')
               (OtherContext 1) (Some (Node OtherNode (OtherContext 1) None)))\<rparr>"

definition thisMember :: AddUsing where
  "thisMember = \<lparr>QualifierToRemove = qualifierMember, Name = ''h''\<rparr>"

definition inputsTypeQualifier :: Selection where
  "inputsTypeQualifier =
     inputsNested\<lparr>commonAncestor :=
       Some (Node (DeclRefExprNode
                     (qualifierNested\<lparr>getNestedNameSpecifier :=
                        Some [NamespaceSegment nsA, TypeSegment ''S'']\<rparr>)
                     ''f'')
               (OtherContext 1) (Some (Node OtherNode (OtherContext 1) None)))\<rparr>"

section \<open>Properties\<close>

subsection \<open>Auxiliary facts\<close>

lemma Replacements_add_first: "Replacements_add R [] = Inr [R]"
  by (simp add: Replacements_add_def)

lemma overlapsWith_sym: "overlapsWith R1 R2 = overlapsWith R2 R1"
  by (auto simp: overlapsWith_def)

text \<open>What a second entry went through when \<^verbatim>\<open>add\<close> accepted it.\<close>

lemma Replacements_add_second:
  assumes "Replacements_add R [D] = Inr Rs"
  shows "Rs = [R, D] \<or> Rs = [D, R]"
    and "\<not> overlapsWith R D"
    and "FilePath D = FilePath R"
  using assms by (auto simp: Replacements_add_def split: if_splits)

lemma two_entries:
  assumes "Rs = [R, D] \<or> Rs = [D, R]"
    and "\<not> overlapsWith R D"
    and "FilePath D = FilePath R"
  shows "1 \<le> length Rs \<and> length Rs \<le> 2 \<and> nonOverlapping Rs
         \<and> (\<forall>X \<in> set Rs. \<forall>Y \<in> set Rs. FilePath X = FilePath Y)"
proof -
  from assms(2) have "\<not> overlapsWith D R" by (simp add: overlapsWith_sym)
  with assms show ?thesis by auto
qed

text \<open>
  When no using-declaration that the loop looks at is a duplicate, and the comparison
  dereferences no null pointer, the loop falls through with the location of the last of
  them.
\<close>

lemma usingsLoop_no_duplicate:
  assumes "\<forall>U \<in> set (priorUsings SM Cur Usings).
             sameNamespace U Q \<noteq> None \<and> \<not> isDuplicate U Q Nm"
  shows "usingsLoop SM Cur Q Nm Usings L0 =
           FellThrough (if priorUsings SM Cur Usings = [] then L0
                        else getUsingLoc (last (priorUsings SM Cur Usings)))"
  using assms
proof (induction Usings arbitrary: L0)
  case Nil
  then show ?case by (simp add: priorUsings_def)
next
  case (Cons U Usings)
  show ?case
  proof (cases "isBeforeInTranslationUnit SM Cur (getUsingLoc U)")
    case True
    then show ?thesis by (simp add: priorUsings_def)
  next
    case False
    with Cons.prems obtain b where b: "sameNamespace U Q = Some b"
      and nd: "\<not> isDuplicate U Q Nm"
      by (auto simp: priorUsings_def)
    from b nd have nb: "\<not> (b \<and> getName U = Nm)"
      by (auto simp: isDuplicate_def)
    from Cons.prems False
    have rest: "\<forall>V \<in> set (priorUsings SM Cur Usings).
                  sameNamespace V Q \<noteq> None \<and> \<not> isDuplicate V Q Nm"
      by (simp add: priorUsings_def)
    have "usingsLoop SM Cur Q Nm (U # Usings) L0
            = usingsLoop SM Cur Q Nm Usings (getUsingLoc U)"
      using False b nb by auto
    also have "\<dots> = FellThrough (if priorUsings SM Cur Usings = [] then getUsingLoc U
                        else getUsingLoc (last (priorUsings SM Cur Usings)))"
      by (rule Cons.IH [OF rest])
    finally show ?thesis using False by (simp add: priorUsings_def)
  qed
qed

text \<open>
  When the loop reaches a duplicate (every using-declaration before it in the list is
  not after the cursor and is compared without a null pointer), it returns the default
  insertion point.
\<close>

lemma usingsLoop_duplicate:
  assumes "\<forall>V \<in> set Pre. \<not> isBeforeInTranslationUnit SM Cur (getUsingLoc V)
                          \<and> sameNamespace V Q \<noteq> None"
    and "\<not> isBeforeInTranslationUnit SM Cur (getUsingLoc U)"
    and "isDuplicate U Q Nm"
  shows "usingsLoop SM Cur Q Nm (Pre @ U # Post) L0 = Returned InsertionPointData_default"
  using assms
proof (induction Pre arbitrary: L0)
  case Nil
  then show ?case by (simp add: isDuplicate_def)
next
  case (Cons V Pre)
  from Cons.prems obtain b where b: "sameNamespace V Q = Some b"
    and nb: "\<not> isBeforeInTranslationUnit SM Cur (getUsingLoc V)"
    by auto
  have IH: "\<And>L. usingsLoop SM Cur Q Nm (Pre @ U # Post) L
                  = Returned InsertionPointData_default"
    using Cons.IH Cons.prems by simp
  show ?case using b nb IH by simp
qed

text \<open>
  A using-declaration that the loop looks at is in the list, and the cursor is before
  neither it nor any declaration of the list up to it.
\<close>

lemma priorUsings_split:
  assumes "priorUsings SM Cur Usings = Pre @ U # Post"
  obtains Rest where "Usings = Pre @ U # Rest"
    and "\<forall>V \<in> set Pre. \<not> isBeforeInTranslationUnit SM Cur (getUsingLoc V)"
    and "\<not> isBeforeInTranslationUnit SM Cur (getUsingLoc U)"
proof -
  let ?P = "\<lambda>V. \<not> isBeforeInTranslationUnit SM Cur (getUsingLoc V)"
  have "Usings = takeWhile ?P Usings @ dropWhile ?P Usings" by simp
  with assms have split: "Usings = Pre @ U # (Post @ dropWhile ?P Usings)"
    by (simp add: priorUsings_def)
  have "\<forall>V \<in> set (takeWhile ?P Usings). ?P V"
    by (auto dest: set_takeWhileD)
  with assms have "\<forall>V \<in> set (Pre @ U # Post). ?P V"
    by (simp add: priorUsings_def)
  then have "\<forall>V \<in> set Pre. ?P V" and "?P U" by auto
  with split show ?thesis by (rule that)
qed

text \<open>What a successful \<^verbatim>\<open>apply\<close> went through.\<close>

lemma apply_success:
  assumes "AddUsing_apply Inputs this = Inr E"
  obtains T Ts where
    "spelledForExpanded (getTokens (AST Inputs))
       (expandedTokens (getTokens (AST Inputs)) (getSourceRange (QualifierToRemove this)))
     = Some (T # Ts)"
    and "addUsingStatement Inputs this
           [mkReplacement (getSourceManager (AST Inputs)) (location T)
              (rangeLength (getTokens (AST Inputs)) T (last (T # Ts))) []] = Inr E"
  using assms
  by (auto simp: AddUsing_apply_def Replacements_add_first Let_def
           split: option.splits list.splits)

lemma addUsingStatement_absent:
  assumes "findInsertionPoint Inputs (QualifierToRemove this) (Name this) = Inr IP"
    and "\<not> isValid (Loc IP)"
  shows "addUsingStatement Inputs this R = Inr (mainFileEdit (getSourceManager (AST Inputs)) R)"
  using assms by (simp add: addUsingStatement_def)

lemma addUsingStatement_insert:
  assumes "addUsingStatement Inputs this [D] = Inr E"
    and "findInsertionPoint Inputs (QualifierToRemove this) (Name this) = Inr IP"
    and "isValid (Loc IP)"
  obtains NNS Rs where "getNestedNameSpecifier (QualifierToRemove this) = Some NNS"
    and "Replacements_add
           (mkReplacement (getSourceManager (AST Inputs)) (Loc IP) 0
              (UsingText NNS (Name this) (Suffix IP))) [D] = Inr Rs"
    and "E = mainFileEdit (getSourceManager (AST Inputs)) Rs"
proof (cases "getNestedNameSpecifier (QualifierToRemove this)")
  case None
  with assms show ?thesis by (simp add: addUsingStatement_def)
next
  case (Some NNS)
  let ?SM = "getSourceManager (AST Inputs)"
  let ?R = "mkReplacement ?SM (Loc IP) 0 (UsingText NNS (Name this) (Suffix IP))"
  from assms Some have main: "getFileID ?SM (Loc IP) = getMainFileID ?SM"
    by (cases "getFileID ?SM (Loc IP) = getMainFileID ?SM")
       (simp_all add: addUsingStatement_def)
  show ?thesis
  proof (cases "Replacements_add ?R [D]")
    case (Inl Err)
    with assms Some main show ?thesis by (simp add: addUsingStatement_def)
  next
    case (Inr Rs)
    with assms Some main have "E = mainFileEdit ?SM Rs"
      by (simp add: addUsingStatement_def)
    with Some Inr show ?thesis by (rule that)
  qed
qed

text \<open>The chain resolves to a namespace exactly when it is a non-empty chain of namespaces.\<close>

lemma getAsNamespace_Some:
  "getAsNamespace NNS = Some ND
   \<Longrightarrow> NNS \<noteq> [] \<and> list_all (\<lambda>S. segmentNamespace S \<noteq> None) NNS"
  by (cases NNS) (auto split: if_splits)

lemma getAsNamespace_None:
  assumes "getAsNamespace NNS = None"
  shows "NNS = [] \<or> \<not> list_all (\<lambda>S. segmentNamespace S \<noteq> None) NNS"
proof (cases NNS)
  case Nil
  then show ?thesis by simp
next
  case (Cons S Ss)
  have "last (S # Ss) \<in> set (S # Ss)" by (rule last_in_set) simp
  then have "list_all (\<lambda>S. segmentNamespace S \<noteq> None) (S # Ss)
             \<Longrightarrow> segmentNamespace (last (S # Ss)) \<noteq> None"
    unfolding list_all_iff by blast
  with assms Cons show ?thesis by (auto split: if_splits)
qed

lemma namespaceQualifier_iff: "namespaceQualifier this = namespaceChain this"
  using getAsNamespace_Some getAsNamespace_None
  by (fastforce simp: namespaceQualifier_def namespaceChain_def hasQualifier_def
           split: option.splits)

subsection \<open>Insertion next to an existing using-declaration\<close>

text \<open>
  C1, as the claim states it, fails. In
  \<^verbatim>\<open>namespace a { void f(); void h(); } using a::h; void g() { a::f(); }\<close> the only
  using-declaration that the scan looks at is \<^verbatim>\<open>using a::h\<close>, it is no duplicate for
  \<^verbatim>\<open>a::f\<close>, and \<^verbatim>\<open>findInsertionPoint\<close> does not return a location past the end of that
  declaration: it returns offset 36, where the declaration begins.
\<close>

theorem anchor_not_after_declaration:
  "priorUsings exSM (Cursor inputsAnchor)
     (TraverseAST (getASTContext (AST inputsAnchor)) exSM (OtherContext 1)) = [usingAnchor]
   \<and> \<not> isDuplicate usingAnchor qualifierAnchor ''f''
   \<and> \<not> insertsAfter inputsAnchor qualifierAnchor ''f'' usingAnchor
   \<and> findInsertionPoint inputsAnchor qualifierAnchor ''f''
       = Inr \<lparr>Loc = getUsingLoc usingAnchor, Suffix = []\<rparr>"
  by code_simp

text \<open>
  C1, as amended: when the using-declarations that the scan looks at (those collected,
  up to the first one that the cursor is before) are not empty, none of them is a
  duplicate, each of them has a qualifier that resolves to a namespace, and the last of
  them has a valid location, then \<^verbatim>\<open>findInsertionPoint\<close> returns the location of the
  \<^verbatim>\<open>using\<close> keyword of that last declaration, with an empty suffix: the new declaration
  is put immediately before it.
\<close>

theorem anchor_inserts_at_using_keyword:
  assumes "commonAncestor Inputs = Some N"
    and "Prior = priorUsings (getSourceManager (AST Inputs)) (Cursor Inputs)
                   (TraverseAST (getASTContext (AST Inputs)) (getSourceManager (AST Inputs))
                      (nodeDeclContext N))"
    and "Prior \<noteq> []"
    and "\<forall>U \<in> set Prior. sameNamespace U Q \<noteq> None \<and> \<not> isDuplicate U Q Nm"
    and "isValid (getUsingLoc (last Prior))"
  shows "findInsertionPoint Inputs Q Nm
           = Inr \<lparr>Loc = getUsingLoc (last Prior), Suffix = []\<rparr>"
proof -
  let ?SM = "getSourceManager (AST Inputs)"
  let ?Us = "TraverseAST (getASTContext (AST Inputs)) ?SM (nodeDeclContext N)"
  have "usingsLoop ?SM (Cursor Inputs) Q Nm ?Us InvalidLoc
          = FellThrough (getUsingLoc (last Prior))"
    using usingsLoop_no_duplicate [of ?SM "Cursor Inputs" ?Us Q Nm InvalidLoc] assms(2,3,4)
    by simp
  then show ?thesis
    using assms(1,5) by (simp add: findInsertionPoint_def Let_def)
qed

text \<open>C1, as amended, on the source above.\<close>

theorem anchor_inserts_at_using_keyword_witness:
  "findInsertionPoint inputsAnchor qualifierAnchor ''f''
     = Inr \<lparr>Loc = FileLoc 36, Suffix = []\<rparr>"
proof -
  let ?N = "Node (DeclRefExprNode qualifierAnchor ''f'') (OtherContext 1)
                (Some (Node OtherNode (OtherContext 1) None))"
  have h1: "commonAncestor inputsAnchor = Some ?N"
    by (simp add: inputsAnchor_def)
  have h2: "[usingAnchor] =
              priorUsings (getSourceManager (AST inputsAnchor)) (Cursor inputsAnchor)
                (TraverseAST (getASTContext (AST inputsAnchor))
                   (getSourceManager (AST inputsAnchor)) (nodeDeclContext ?N))"
    by code_simp
  have h3: "[usingAnchor] \<noteq> []" by simp
  have h4: "\<forall>U \<in> set [usingAnchor].
              sameNamespace U qualifierAnchor \<noteq> None \<and> \<not> isDuplicate U qualifierAnchor ''f''"
    by code_simp
  have h5: "isValid (getUsingLoc (last [usingAnchor]))"
    by code_simp
  show ?thesis
    using anchor_inserts_at_using_keyword [OF h1 h2 h3 h4 h5]
    by (simp add: usingAnchor_def)
qed

subsection \<open>The example of the specification\<close>

text \<open>
  C2, as the claim states it, fails: on the source
  \<^verbatim>\<open>namespace a { namespace b { void f(); } } void g() { a::b::f(); }\<close> the tweak does not
  produce both the deletion of \<^verbatim>\<open>a::b::\<close> and the insertion of \<^verbatim>\<open>using a::b::f;\<close> with one
  line break right after the opening brace of \<^verbatim>\<open>namespace b\<close>.
\<close>

theorem example_not_after_namespace_brace:
  "\<not> (expectedDeletion \<in> set (tweakEdits inputsNested)
      \<and> expectedInsertion \<in> set (tweakEdits inputsNested))"
  by code_simp

text \<open>
  C2, as amended: on that source the tweak is applicable and produces an edit of the
  main file with two entries, the insertion of \<^verbatim>\<open>using a::b::f;\<close> followed by two line
  breaks at offset 0, before the first top-level declaration \<^verbatim>\<open>namespace a\<close>, and the
  deletion of the six characters \<^verbatim>\<open>a::b::\<close> at offset 53. The function \<^verbatim>\<open>g\<close> is not inside
  a namespace, so it is the last fallback that applies.
\<close>

theorem example_inserts_above_first_decl:
  "runTweak inputsNested =
     Some (Inr \<lparr>ApplyEdits =
       [(''test.cpp'',
         [\<lparr>FilePath = ''test.cpp'', Offset = 0, Length = 0,
            ReplacementText = ''using a::b::f;'' @ [CHR 0x0A, CHR 0x0A]\<rparr>,
          \<lparr>FilePath = ''test.cpp'', Offset = 53, Length = 6, ReplacementText = []\<rparr>])]\<rparr>)"
  by code_simp

subsection \<open>The inserted text\<close>

text \<open>
  C3: when \<^verbatim>\<open>apply\<close> succeeds and the insertion point is a valid location, the edits are
  the deletion of the qualifier and one insertion at the insertion point, whose text is
  the keyword \<^verbatim>\<open>using\<close> and a space, the scope path of the namespace that the qualifier
  resolves to, each of its names followed by \<^verbatim>\<open>::\<close>, the name, a semicolon, and the
  suffix of the insertion point. The text depends on the qualifier through the resolved
  namespace only.
\<close>

theorem inserted_text_layout:
  assumes "AddUsing_apply Inputs this = Inr E"
    and "findInsertionPoint Inputs (QualifierToRemove this) (Name this) = Inr IP"
    and "isValid (Loc IP)"
    and "getNestedNameSpecifier (QualifierToRemove this) = Some NNS"
    and "getAsNamespace NNS = Some ND"
  shows "\<exists>Deletion. ReplacementText Deletion = []
           \<and> set (editsOf (Inr E)) =
               {Deletion,
                mkReplacement (getSourceManager (AST Inputs)) (Loc IP) 0
                  (''using '' @ printScopePath (scopePath ND) @ Name this @ '';''
                   @ Suffix IP)}"
proof -
  let ?SM = "getSourceManager (AST Inputs)"
  from assms(1) obtain T Ts where
    stmt: "addUsingStatement Inputs this
           [mkReplacement ?SM (location T)
              (rangeLength (getTokens (AST Inputs)) T (last (T # Ts))) []] = Inr E"
    by (rule apply_success)
  let ?D = "mkReplacement ?SM (location T)
              (rangeLength (getTokens (AST Inputs)) T (last (T # Ts))) []"
  from stmt assms(2,3) obtain NNS' Rs where
    nns: "getNestedNameSpecifier (QualifierToRemove this) = Some NNS'"
    and add: "Replacements_add
           (mkReplacement ?SM (Loc IP) 0 (UsingText NNS' (Name this) (Suffix IP))) [?D]
         = Inr Rs"
    and E: "E = mainFileEdit ?SM Rs"
    by (rule addUsingStatement_insert)
  from nns assms(4) have same: "NNS' = NNS" by simp
  have layout: "UsingText NNS (Name this) (Suffix IP)
              = ''using '' @ printScopePath (scopePath ND) @ Name this @ '';'' @ Suffix IP"
    using assms(5) by (simp add: UsingText_def print_def)
  from Replacements_add_second(1) [OF add]
  have "set Rs = {?D, mkReplacement ?SM (Loc IP) 0 (UsingText NNS (Name this) (Suffix IP))}"
    unfolding same by auto
  then have "set (editsOf (Inr E)) =
               {?D, mkReplacement ?SM (Loc IP) 0
                  (''using '' @ printScopePath (scopePath ND) @ Name this @ '';''
                   @ Suffix IP)}"
    using E layout by (simp add: editsOf_def mainFileEdit_def)
  moreover have "ReplacementText ?D = []" by (simp add: mkReplacement_def)
  ultimately show ?thesis by blast
qed

text \<open>C3 on the example of the specification.\<close>

theorem inserted_text_layout_witness:
  "\<lparr>FilePath = ''test.cpp'', Offset = 0, Length = 0,
    ReplacementText = ''using a::b::f;'' @ [CHR 0x0A, CHR 0x0A]\<rparr>
   \<in> set (editsOf (AddUsing_apply inputsNested thisNested))"
proof -
  let ?E = "\<lparr>ApplyEdits =
       [(''test.cpp'',
         [\<lparr>FilePath = ''test.cpp'', Offset = 0, Length = 0,
            ReplacementText = ''using a::b::f;'' @ [CHR 0x0A, CHR 0x0A]\<rparr>,
          \<lparr>FilePath = ''test.cpp'', Offset = 53, Length = 6, ReplacementText = []\<rparr>])]\<rparr>"
  let ?IP = "\<lparr>Loc = FileLoc 0, Suffix = [CHR 0x0A, CHR 0x0A]\<rparr>"
  have h1: "AddUsing_apply inputsNested thisNested = Inr ?E"
    by code_simp
  have h2: "findInsertionPoint inputsNested (QualifierToRemove thisNested) (Name thisNested)
              = Inr ?IP"
    by code_simp
  have h3: "isValid (Loc ?IP)" by simp
  have h4: "getNestedNameSpecifier (QualifierToRemove thisNested)
              = Some [NamespaceSegment nsA, NamespaceSegment nsB]"
    by (simp add: thisNested_def qualifierNested_def)
  have h5: "getAsNamespace [NamespaceSegment nsA, NamespaceSegment nsB] = Some nsB"
    by simp
  have ins: "mkReplacement (getSourceManager (AST inputsNested)) (Loc ?IP) 0
               (''using '' @ printScopePath (scopePath nsB) @ Name thisNested @ '';''
                @ Suffix ?IP)
             = \<lparr>FilePath = ''test.cpp'', Offset = 0, Length = 0,
                ReplacementText = ''using a::b::f;'' @ [CHR 0x0A, CHR 0x0A]\<rparr>"
    by code_simp
  from inserted_text_layout [OF h1 h2 h3 h4 h5]
  have "mkReplacement (getSourceManager (AST inputsNested)) (Loc ?IP) 0
               (''using '' @ printScopePath (scopePath nsB) @ Name thisNested @ '';''
                @ Suffix ?IP)
        \<in> set (editsOf (Inr ?E))"
    by blast
  then show ?thesis
    unfolding ins h1 .
qed

subsection \<open>A namespace without an opening brace\<close>

text \<open>
  C4, as the claim states it, fails. With the header \<^verbatim>\<open>n.h\<close> holding the first
  declaration of \<^verbatim>\<open>namespace n\<close>, and the selection inside \<^verbatim>\<open>namespace n\<close> of the main
  file, the scan finds no using-declaration, the selection has an enclosing namespace,
  no opening brace is found among the tokens of its range, and \<^verbatim>\<open>findInsertionPoint\<close>
  fails with an error instead of going on to the top-level declarations.
\<close>

theorem missing_brace_is_an_error:
  "priorUsings exSM (Cursor inputsHeader)
     (TraverseAST (getASTContext (AST inputsHeader)) exSM (OtherContext 1)) = []
   \<and> dyn_cast_NamespaceDecl
       (getEnclosingNamespaceContext (getASTContext (AST inputsHeader)) (OtherContext 1))
     = Some nsHeaderN
   \<and> find (\<lambda>Tok. kind Tok = tok_l_brace)
       (expandedTokens (getTokens (AST inputsHeader)) (nsSourceRange nsHeaderN)) = None
   \<and> getLocalTopLevelDecls (AST inputsHeader) \<noteq> []
   \<and> findInsertionPoint inputsHeader qualifierHeader ''f''
       = Inl (StringError ''Namespace with no {'')"
  by code_simp

text \<open>
  C4, as amended: when the scan looks at no using-declaration and the selection has an
  enclosing namespace, \<^verbatim>\<open>findInsertionPoint\<close> fails with the error
  ``Namespace with no \{'' if no opening brace is found among the expanded tokens of the
  namespace or the end location of the brace is invalid; it returns the end location of
  the brace with one line break as suffix if that location is valid and not in a macro
  expansion; and it goes on to the first top-level declaration (or to the error of a
  file without one) if the brace is found with its end location in a macro expansion,
  and only then.
\<close>

theorem namespace_without_brace_fails:
  assumes "commonAncestor Inputs = Some N"
    and "priorUsings (getSourceManager (AST Inputs)) (Cursor Inputs)
           (TraverseAST (getASTContext (AST Inputs)) (getSourceManager (AST Inputs))
              (nodeDeclContext N)) = []"
    and "dyn_cast_NamespaceDecl
           (getEnclosingNamespaceContext (getASTContext (AST Inputs)) (nodeDeclContext N))
         = Some ND"
    and "Brace = find (\<lambda>Tok. kind Tok = tok_l_brace)
                   (expandedTokens (getTokens (AST Inputs)) (nsSourceRange ND))"
    and "Top = (case getLocalTopLevelDecls (AST Inputs) of
                  [] \<Rightarrow> Inl (StringError CannotFindPlace)
                | D # Ds \<Rightarrow>
                    Inr \<lparr>Loc = getExpansionLoc (getSourceManager (AST Inputs))
                                 (declBeginLoc D),
                         Suffix = [CHR 0x0A, CHR 0x0A]\<rparr>)"
  shows "(Brace = None \<or> (\<exists>Tok. Brace = Some Tok \<and> isInvalid (endLocation Tok))
          \<longrightarrow> findInsertionPoint Inputs Q Nm = Inl (StringError ''Namespace with no {''))
       \<and> ((\<exists>Tok. Brace = Some Tok \<and> isMacroID (endLocation Tok))
          \<longrightarrow> findInsertionPoint Inputs Q Nm = Top)
       \<and> (\<forall>Tok. Brace = Some Tok \<and> isValid (endLocation Tok)
                 \<and> \<not> isMacroID (endLocation Tok)
          \<longrightarrow> findInsertionPoint Inputs Q Nm
                = Inr \<lparr>Loc = endLocation Tok, Suffix = [CHR 0x0A]\<rparr>)
       \<and> (findInsertionPoint Inputs Q Nm = Top
          \<longrightarrow> (\<exists>Tok. Brace = Some Tok \<and> isMacroID (endLocation Tok)))"
proof -
  let ?SM = "getSourceManager (AST Inputs)"
  let ?Us = "TraverseAST (getASTContext (AST Inputs)) ?SM (nodeDeclContext N)"
  have "usingsLoop ?SM (Cursor Inputs) Q Nm ?Us InvalidLoc = FellThrough InvalidLoc"
    using usingsLoop_no_duplicate [of ?SM "Cursor Inputs" ?Us Q Nm InvalidLoc] assms(2)
    by simp
  then have fip: "findInsertionPoint Inputs Q Nm
                  = insertAtNamespaceOrTop (AST Inputs) (nodeDeclContext N)"
    using assms(1) by (simp add: findInsertionPoint_def Let_def)
  have macro_valid: "\<And>L. isMacroID L \<Longrightarrow> isValid L"
    by (case_tac L) simp_all
  have msg: "StringError ''Namespace with no {'' \<noteq> StringError CannotFindPlace"
    by (simp add: CannotFindPlace_def)
  have top_cases: "Top = Inl (StringError CannotFindPlace)
                   \<or> (\<exists>L. Top = Inr \<lparr>Loc = L, Suffix = [CHR 0x0A, CHR 0x0A]\<rparr>)"
    unfolding assms(5) by (cases "getLocalTopLevelDecls (AST Inputs)") simp_all
  show ?thesis
  proof (cases Brace)
    case None
    with assms(3,4)
    have r: "findInsertionPoint Inputs Q Nm = Inl (StringError ''Namespace with no {'')"
      unfolding fip by (simp add: insertAtNamespaceOrTop_def Let_def)
    with top_cases msg have "findInsertionPoint Inputs Q Nm \<noteq> Top" by auto
    with r None show ?thesis by simp
  next
    case (Some Tok)
    show ?thesis
    proof (cases "isValid (endLocation Tok)")
      case False
      with Some assms(3,4)
      have r: "findInsertionPoint Inputs Q Nm = Inl (StringError ''Namespace with no {'')"
        unfolding fip by (simp add: insertAtNamespaceOrTop_def Let_def)
      with top_cases msg have ne: "findInsertionPoint Inputs Q Nm \<noteq> Top" by auto
      from False macro_valid have "\<not> isMacroID (endLocation Tok)" by blast
      with r ne Some False show ?thesis by simp
    next
      case True
      show ?thesis
      proof (cases "isMacroID (endLocation Tok)")
        case m: True
        with Some True assms(3,4,5) have "findInsertionPoint Inputs Q Nm = Top"
          unfolding fip by (simp add: insertAtNamespaceOrTop_def Let_def)
        with Some True m show ?thesis by simp
      next
        case m: False
        with Some True assms(3,4) have r: "findInsertionPoint Inputs Q Nm
                = Inr \<lparr>Loc = endLocation Tok, Suffix = [CHR 0x0A]\<rparr>"
          unfolding fip by (simp add: insertAtNamespaceOrTop_def Let_def)
        with top_cases have "findInsertionPoint Inputs Q Nm \<noteq> Top" by auto
        with r Some True m show ?thesis by simp
      qed
    qed
  qed
qed

text \<open>
  C4, as amended, on the namespace of the header (no brace among the tokens), on the
  namespace opened by a macro (a brace in a macro expansion, the one case that goes on
  to the top-level declarations), and on the namespace of the main file (a brace at a
  file location).
\<close>

theorem namespace_without_brace_fails_witness:
  "findInsertionPoint inputsHeader qualifierHeader ''f''
     = Inl (StringError ''Namespace with no {'')
   \<and> findInsertionPoint inputsMacro qualifierMacro ''f''
     = Inr \<lparr>Loc = FileLoc 27, Suffix = [CHR 0x0A, CHR 0x0A]\<rparr>
   \<and> findInsertionPoint inputsInner qualifierHeader ''f''
     = Inr \<lparr>Loc = FileLoc 54, Suffix = [CHR 0x0A]\<rparr>
   \<and> isMacroID (endLocation (mtok tok_l_brace 107))"
proof -
  let ?N = "Node (DeclRefExprNode qualifierHeader ''f'') (OtherContext 1)
                (Some (Node OtherNode (OtherContext 1) None))"
  let ?M = "Node (DeclRefExprNode qualifierMacro ''f'') (OtherContext 1)
                (Some (Node OtherNode (OtherContext 1) None))"
  let ?TopH = "Inr \<lparr>Loc = FileLoc 15, Suffix = [CHR 0x0A, CHR 0x0A]\<rparr>
               :: Error + InsertionPointData"
  let ?TopM = "Inr \<lparr>Loc = FileLoc 27, Suffix = [CHR 0x0A, CHR 0x0A]\<rparr>
               :: Error + InsertionPointData"
  have a1: "commonAncestor inputsHeader = Some ?N"
    by (simp add: inputsHeader_def)
  have a2: "priorUsings (getSourceManager (AST inputsHeader)) (Cursor inputsHeader)
              (TraverseAST (getASTContext (AST inputsHeader))
                 (getSourceManager (AST inputsHeader)) (nodeDeclContext ?N)) = []"
    by code_simp
  have a3: "dyn_cast_NamespaceDecl
              (getEnclosingNamespaceContext (getASTContext (AST inputsHeader))
                 (nodeDeclContext ?N)) = Some nsHeaderN"
    by code_simp
  have a4: "None = find (\<lambda>Tok. kind Tok = tok_l_brace)
                     (expandedTokens (getTokens (AST inputsHeader)) (nsSourceRange nsHeaderN))"
    by code_simp
  have a5: "?TopH = (case getLocalTopLevelDecls (AST inputsHeader) of
               [] \<Rightarrow> Inl (StringError CannotFindPlace)
             | D # Ds \<Rightarrow>
                 Inr \<lparr>Loc = getExpansionLoc (getSourceManager (AST inputsHeader))
                              (declBeginLoc D),
                      Suffix = [CHR 0x0A, CHR 0x0A]\<rparr>)"
    by code_simp
  have b1: "commonAncestor inputsMacro = Some ?M"
    by (simp add: inputsMacro_def)
  have b2: "priorUsings (getSourceManager (AST inputsMacro)) (Cursor inputsMacro)
              (TraverseAST (getASTContext (AST inputsMacro))
                 (getSourceManager (AST inputsMacro)) (nodeDeclContext ?M)) = []"
    by code_simp
  have b3: "dyn_cast_NamespaceDecl
              (getEnclosingNamespaceContext (getASTContext (AST inputsMacro))
                 (nodeDeclContext ?M)) = Some nsMacroN"
    by code_simp
  have b4: "Some (mtok tok_l_brace 107) =
              find (\<lambda>Tok. kind Tok = tok_l_brace)
                (expandedTokens (getTokens (AST inputsMacro)) (nsSourceRange nsMacroN))"
    by code_simp
  have b5: "?TopM = (case getLocalTopLevelDecls (AST inputsMacro) of
               [] \<Rightarrow> Inl (StringError CannotFindPlace)
             | D # Ds \<Rightarrow>
                 Inr \<lparr>Loc = getExpansionLoc (getSourceManager (AST inputsMacro))
                              (declBeginLoc D),
                      Suffix = [CHR 0x0A, CHR 0x0A]\<rparr>)"
    by code_simp
  have b6: "isMacroID (endLocation (mtok tok_l_brace 107))"
    by (simp add: mtok_def)
  have c1: "commonAncestor inputsInner = Some ?N"
    by (simp add: inputsInner_def inputsHeader_def)
  have c2: "priorUsings (getSourceManager (AST inputsInner)) (Cursor inputsInner)
              (TraverseAST (getASTContext (AST inputsInner))
                 (getSourceManager (AST inputsInner)) (nodeDeclContext ?N)) = []"
    by code_simp
  have c3: "dyn_cast_NamespaceDecl
              (getEnclosingNamespaceContext (getASTContext (AST inputsInner))
                 (nodeDeclContext ?N)) = Some nsMainN"
    by code_simp
  have c4: "Some (tok tok_l_brace 53 54) =
              find (\<lambda>Tok. kind Tok = tok_l_brace)
                (expandedTokens (getTokens (AST inputsInner)) (nsSourceRange nsMainN))"
    by code_simp
  have c5: "?TopH = (case getLocalTopLevelDecls (AST inputsInner) of
               [] \<Rightarrow> Inl (StringError CannotFindPlace)
             | D # Ds \<Rightarrow>
                 Inr \<lparr>Loc = getExpansionLoc (getSourceManager (AST inputsInner))
                              (declBeginLoc D),
                      Suffix = [CHR 0x0A, CHR 0x0A]\<rparr>)"
    by code_simp
  have c6: "isValid (endLocation (tok tok_l_brace 53 54))
            \<and> \<not> isMacroID (endLocation (tok tok_l_brace 53 54))
            \<and> endLocation (tok tok_l_brace 53 54) = FileLoc 54"
    by (simp add: tok_def)
  from namespace_without_brace_fails [OF a1 a2 a3 a4 a5, of qualifierHeader "''f''"]
  have first: "findInsertionPoint inputsHeader qualifierHeader ''f''
                 = Inl (StringError ''Namespace with no {'')"
    by blast
  from namespace_without_brace_fails [OF b1 b2 b3 b4 b5, of qualifierMacro "''f''"] b6
  have second: "findInsertionPoint inputsMacro qualifierMacro ''f'' = ?TopM"
    by blast
  from namespace_without_brace_fails [OF b1 b2 b3 b4 b5, of qualifierMacro "''f''"] second
  have fourth: "\<exists>Tok. Some (mtok tok_l_brace 107) = Some Tok \<and> isMacroID (endLocation Tok)"
    by blast
  from namespace_without_brace_fails [OF c1 c2 c3 c4 c5, of qualifierHeader "''f''"] c6
  have third: "findInsertionPoint inputsInner qualifierHeader ''f''
                 = Inr \<lparr>Loc = FileLoc 54, Suffix = [CHR 0x0A]\<rparr>"
    by metis
  from fourth have "isMacroID (endLocation (mtok tok_l_brace 107))" by simp
  with first second third show ?thesis by simp
qed

subsection \<open>An existing using-declaration for the same name\<close>

text \<open>
  C5, as the claim states it, fails. In the source with \<^verbatim>\<open>#define M(x) x::f\<close> and
  \<^verbatim>\<open>namespace a { void f(); } using a::f; void g() { M(a)(); }\<close> the declaration
  \<^verbatim>\<open>using a::f\<close> is at the top level, the scan collects it, it is strictly before the
  cursor and names the namespace and the name of the candidate, and \<^verbatim>\<open>prepare\<close> accepts
  the candidate; but the qualifier is a part of a macro expansion and maps to no
  spelled tokens, so \<^verbatim>\<open>apply\<close> returns an error and the qualifier is not deleted. In
  \<^verbatim>\<open>struct D : B { using B::f; using a::h; void g() { a::h(); } };\<close> the scan meets
  \<^verbatim>\<open>using B::f\<close>, whose qualifier is no namespace, before the duplicate \<^verbatim>\<open>using a::h\<close>, and
  dereferences a null pointer.
\<close>

theorem duplicate_without_deletion:
  "AddUsing_prepare inputsPartial AddUsing_init = (True, thisPartial)
   \<and> priorUsings exSM (Cursor inputsPartial)
       (TraverseAST (getASTContext (AST inputsPartial)) exSM (OtherContext 1)) = [usingPartial]
   \<and> isBeforeInTranslationUnit exSM (getUsingLoc usingPartial) (Cursor inputsPartial)
   \<and> isDuplicate usingPartial (QualifierToRemove thisPartial) (Name thisPartial)
   \<and> \<not> onlyDeletes inputsPartial thisPartial
   \<and> AddUsing_apply inputsPartial thisPartial
       = Inl (StringError ''Could not determine length of the qualifier'')
   \<and> AddUsing_prepare inputsAfterMember AddUsing_init = (True, thisAfterMember)
   \<and> priorUsings exSM (Cursor inputsAfterMember)
       (TraverseAST (getASTContext (AST inputsAfterMember)) exSM (OtherContext 1))
     = [usingMember, usingAfterMember]
   \<and> isBeforeInTranslationUnit exSM (getUsingLoc usingAfterMember) (Cursor inputsAfterMember)
   \<and> isDuplicate usingAfterMember (QualifierToRemove thisAfterMember) (Name thisAfterMember)
   \<and> \<not> onlyDeletes inputsAfterMember thisAfterMember
   \<and> AddUsing_apply inputsAfterMember thisAfterMember = Inl NullDereference"
  by code_simp

text \<open>
  C5, as amended: when the qualifier maps to spelled tokens, and among the
  using-declarations that the scan looks at (those collected, up to the first one that
  the cursor is before) there is one that names the canonical namespace and the name of
  the candidate, every declaration before it in that list having a qualifier that
  resolves to a namespace, then \<^verbatim>\<open>apply\<close> returns an edit of the main file with one
  entry, the deletion of the qualifier: no using-declaration is inserted.
\<close>

theorem duplicate_only_deletes:
  assumes "commonAncestor Inputs = Some N"
    and "priorUsings (getSourceManager (AST Inputs)) (Cursor Inputs)
           (TraverseAST (getASTContext (AST Inputs)) (getSourceManager (AST Inputs))
              (nodeDeclContext N)) = Pre @ U # Post"
    and "\<forall>V \<in> set Pre. sameNamespace V (QualifierToRemove this) \<noteq> None"
    and "isDuplicate U (QualifierToRemove this) (Name this)"
    and "spelledForExpanded (getTokens (AST Inputs))
           (expandedTokens (getTokens (AST Inputs)) (getSourceRange (QualifierToRemove this)))
         = Some (T # Ts)"
  shows "AddUsing_apply Inputs this =
           Inr (mainFileEdit (getSourceManager (AST Inputs))
                  [mkReplacement (getSourceManager (AST Inputs)) (location T)
                     (rangeLength (getTokens (AST Inputs)) T (last (T # Ts))) []])"
proof -
  let ?SM = "getSourceManager (AST Inputs)"
  let ?Us = "TraverseAST (getASTContext (AST Inputs)) ?SM (nodeDeclContext N)"
  from assms(2) obtain Rest where us: "?Us = Pre @ U # Rest"
    and pre: "\<forall>V \<in> set Pre. \<not> isBeforeInTranslationUnit ?SM (Cursor Inputs) (getUsingLoc V)"
    and u: "\<not> isBeforeInTranslationUnit ?SM (Cursor Inputs) (getUsingLoc U)"
    by (rule priorUsings_split)
  from pre assms(3)
  have pre': "\<forall>V \<in> set Pre. \<not> isBeforeInTranslationUnit ?SM (Cursor Inputs) (getUsingLoc V)
                              \<and> sameNamespace V (QualifierToRemove this) \<noteq> None"
    by blast
  have "usingsLoop ?SM (Cursor Inputs) (QualifierToRemove this) (Name this)
          (Pre @ U # Rest) InvalidLoc
          = Returned InsertionPointData_default"
    by (rule usingsLoop_duplicate [OF pre' u assms(4)])
  then have fip: "findInsertionPoint Inputs (QualifierToRemove this) (Name this)
                  = Inr InsertionPointData_default"
    using assms(1) us by (simp add: findInsertionPoint_def Let_def)
  have inv: "\<not> isValid (Loc InsertionPointData_default)"
    by (simp add: InsertionPointData_default_def)
  show ?thesis
    using assms(5) addUsingStatement_absent [OF fip inv]
    by (simp add: AddUsing_apply_def Replacements_add_first Let_def)
qed

text \<open>
  C5, as amended, on
  \<^verbatim>\<open>namespace a { void f(); } using a::f; void g() { a::f(); }\<close>.
\<close>

theorem duplicate_only_deletes_witness:
  "AddUsing_apply inputsDuplicate thisDuplicate =
     Inr \<lparr>ApplyEdits = [(''test.cpp'',
            [\<lparr>FilePath = ''test.cpp'', Offset = 49, Length = 3, ReplacementText = []\<rparr>])]\<rparr>"
proof -
  let ?N = "Node (DeclRefExprNode qualifierDuplicate ''f'') (OtherContext 1)
                (Some (Node OtherNode (OtherContext 1) None))"
  have h1: "commonAncestor inputsDuplicate = Some ?N"
    by (simp add: inputsDuplicate_def)
  have h2: "priorUsings (getSourceManager (AST inputsDuplicate)) (Cursor inputsDuplicate)
              (TraverseAST (getASTContext (AST inputsDuplicate))
                 (getSourceManager (AST inputsDuplicate)) (nodeDeclContext ?N))
            = [] @ usingDuplicate # []"
    by code_simp
  have h3: "\<forall>V \<in> set []. sameNamespace V (QualifierToRemove thisDuplicate) \<noteq> None"
    by simp
  have h4: "isDuplicate usingDuplicate (QualifierToRemove thisDuplicate) (Name thisDuplicate)"
    by code_simp
  have h5: "spelledForExpanded (getTokens (AST inputsDuplicate))
              (expandedTokens (getTokens (AST inputsDuplicate))
                 (getSourceRange (QualifierToRemove thisDuplicate)))
            = Some (tok tok_identifier 49 50 # [tok tok_coloncolon 50 52])"
    by code_simp
  have e: "mainFileEdit (getSourceManager (AST inputsDuplicate))
             [mkReplacement (getSourceManager (AST inputsDuplicate))
                (location (tok tok_identifier 49 50))
                (rangeLength (getTokens (AST inputsDuplicate)) (tok tok_identifier 49 50)
                   (last (tok tok_identifier 49 50 # [tok tok_coloncolon 50 52]))) []]
           = \<lparr>ApplyEdits = [(''test.cpp'',
               [\<lparr>FilePath = ''test.cpp'', Offset = 49, Length = 3,
                  ReplacementText = []\<rparr>])]\<rparr>"
    by code_simp
  show ?thesis
    using duplicate_only_deletes [OF h1 h2 h3 h4 h5] e by simp
qed

subsection \<open>The candidates that prepare accepts\<close>

text \<open>
  C6: a candidate that \<^verbatim>\<open>prepare\<close> accepts has a chain with at least one segment, every
  segment of which resolves to a namespace, and a name that is not empty; a candidate
  that lacks one of these is rejected.
\<close>

theorem accepted_candidate_is_namespace_chain:
  assumes "AddUsing_prepare Inputs this0 = (accepted, this)"
  shows "(accepted \<longrightarrow> namespaceChain this) \<and> (\<not> namespaceChain this \<longrightarrow> \<not> accepted)"
  using assms
  by (auto simp: AddUsing_prepare_def Let_def namespaceQualifier_iff
           split: option.splits if_splits)

text \<open>
  C6 on the example of the specification, accepted, and on the same selection with the
  qualifier \<^verbatim>\<open>a::S::\<close> of a type \<^verbatim>\<open>S\<close>, rejected.
\<close>

theorem accepted_candidate_is_namespace_chain_witness:
  "namespaceChain thisNested \<and> \<not> fst (AddUsing_prepare inputsTypeQualifier AddUsing_init)"
proof -
  have h1: "AddUsing_prepare inputsNested AddUsing_init = (True, thisNested)"
    by code_simp
  have h2: "AddUsing_prepare inputsTypeQualifier AddUsing_init
              = (fst (AddUsing_prepare inputsTypeQualifier AddUsing_init),
                 snd (AddUsing_prepare inputsTypeQualifier AddUsing_init))"
    by simp
  have h3: "\<not> namespaceChain (snd (AddUsing_prepare inputsTypeQualifier AddUsing_init))"
    by code_simp
  show ?thesis
    using accepted_candidate_is_namespace_chain [OF h1]
      accepted_candidate_is_namespace_chain [OF h2] h3
    by blast
qed

text \<open>
  C7: \<^verbatim>\<open>prepare\<close> returns false when the qualifier begins in the expansion of a macro
  body, and when its begin and end are not written in the same file. When neither is
  the case, there is a selection, and the qualifier is a chain of namespaces with a
  name, it returns true; this includes a qualifier whose locations are in a macro
  expansion as an argument of the macro.
\<close>

theorem macro_and_file_checks:
  assumes "AddUsing_prepare Inputs this0 = (accepted, this)"
  shows "(isMacroBodyExpansion (getSourceManager (AST Inputs))
            (getBeginLoc (QualifierToRemove this))
          \<or> \<not> isWrittenInSameFile (getSourceManager (AST Inputs))
                (getBeginLoc (QualifierToRemove this)) (getEndLoc (QualifierToRemove this))
          \<longrightarrow> \<not> accepted)
       \<and> (commonAncestor Inputs \<noteq> None \<and> namespaceQualifier this
          \<and> \<not> isMacroBodyExpansion (getSourceManager (AST Inputs))
                (getBeginLoc (QualifierToRemove this))
          \<and> isWrittenInSameFile (getSourceManager (AST Inputs))
                (getBeginLoc (QualifierToRemove this)) (getEndLoc (QualifierToRemove this))
          \<longrightarrow> accepted)"
  using assms
  by (auto simp: AddUsing_prepare_def Let_def spelledInOneFile_def
           split: option.splits if_splits)

text \<open>
  C7 on the qualifier from a macro body and on the qualifier across two files, both
  rejected, and on the qualifier that is a macro argument, accepted.
\<close>

theorem macro_and_file_checks_witness:
  "\<not> fst (AddUsing_prepare inputsMacroBody AddUsing_init)
   \<and> \<not> fst (AddUsing_prepare inputsTwoFiles AddUsing_init)
   \<and> isMacroID (getBeginLoc (QualifierToRemove
                   (snd (AddUsing_prepare inputsMacroArgument AddUsing_init))))
   \<and> fst (AddUsing_prepare inputsMacroArgument AddUsing_init)"
proof -
  let ?body = "AddUsing_prepare inputsMacroBody AddUsing_init"
  let ?two = "AddUsing_prepare inputsTwoFiles AddUsing_init"
  let ?arg = "AddUsing_prepare inputsMacroArgument AddUsing_init"
  have p1: "?body = (fst ?body, snd ?body)" by simp
  have p2: "?two = (fst ?two, snd ?two)" by simp
  have p3: "?arg = (fst ?arg, snd ?arg)" by simp
  have c1: "isMacroBodyExpansion (getSourceManager (AST inputsMacroBody))
              (getBeginLoc (QualifierToRemove (snd ?body)))"
    by code_simp
  have c2: "\<not> isWrittenInSameFile (getSourceManager (AST inputsTwoFiles))
                (getBeginLoc (QualifierToRemove (snd ?two)))
                (getEndLoc (QualifierToRemove (snd ?two)))"
    by code_simp
  have c3: "commonAncestor inputsMacroArgument \<noteq> None \<and> namespaceQualifier (snd ?arg)
            \<and> \<not> isMacroBodyExpansion (getSourceManager (AST inputsMacroArgument))
                  (getBeginLoc (QualifierToRemove (snd ?arg)))
            \<and> isWrittenInSameFile (getSourceManager (AST inputsMacroArgument))
                  (getBeginLoc (QualifierToRemove (snd ?arg)))
                  (getEndLoc (QualifierToRemove (snd ?arg)))"
    by code_simp
  have c4: "isMacroID (getBeginLoc (QualifierToRemove (snd ?arg)))"
    by code_simp
  show ?thesis
    using macro_and_file_checks [OF p1] macro_and_file_checks [OF p2]
      macro_and_file_checks [OF p3] c1 c2 c3 c4
    by blast
qed

subsection \<open>The edits that apply returns\<close>

text \<open>
  C8: when \<^verbatim>\<open>apply\<close> succeeds, its effect edits exactly one file, the main file, with one
  or two replacements, no two of which overlap, and which all name the same file.
\<close>

theorem effect_single_file_two_edits:
  assumes "AddUsing_apply Inputs this = Inr E"
  shows "\<exists>Rs. ApplyEdits E = [(getFilename (getSourceManager (AST Inputs))
                                 (getMainFileID (getSourceManager (AST Inputs))), Rs)]
              \<and> 1 \<le> length Rs \<and> length Rs \<le> 2
              \<and> nonOverlapping Rs
              \<and> (\<forall>R \<in> set Rs. \<forall>R' \<in> set Rs. FilePath R = FilePath R')"
proof -
  let ?SM = "getSourceManager (AST Inputs)"
  from assms obtain T Ts where
    stmt: "addUsingStatement Inputs this
           [mkReplacement ?SM (location T)
              (rangeLength (getTokens (AST Inputs)) T (last (T # Ts))) []] = Inr E"
    by (rule apply_success)
  let ?D = "mkReplacement ?SM (location T)
              (rangeLength (getTokens (AST Inputs)) T (last (T # Ts))) []"
  from stmt obtain IP where
    fip: "findInsertionPoint Inputs (QualifierToRemove this) (Name this) = Inr IP"
    by (cases "findInsertionPoint Inputs (QualifierToRemove this) (Name this)")
       (simp_all add: addUsingStatement_def)
  show ?thesis
  proof (cases "isValid (Loc IP)")
    case False
    from stmt addUsingStatement_absent [OF fip False, of "[?D]"]
    have "E = mainFileEdit ?SM [?D]" by simp
    then show ?thesis by (simp add: mainFileEdit_def)
  next
    case True
    from stmt fip True obtain NNS Rs where
      add: "Replacements_add
             (mkReplacement ?SM (Loc IP) 0 (UsingText NNS (Name this) (Suffix IP))) [?D]
           = Inr Rs"
      and E: "E = mainFileEdit ?SM Rs"
      by (rule addUsingStatement_insert)
    have props: "1 \<le> length Rs \<and> length Rs \<le> 2 \<and> nonOverlapping Rs
          \<and> (\<forall>R \<in> set Rs. \<forall>R' \<in> set Rs. FilePath R = FilePath R')"
      by (rule two_entries [OF Replacements_add_second [OF add]])
    have "ApplyEdits E = [(getFilename ?SM (getMainFileID ?SM), Rs)]"
      using E by (simp add: mainFileEdit_def)
    with props show ?thesis by blast
  qed
qed

text \<open>C8 on the example of the specification.\<close>

theorem effect_single_file_two_edits_witness:
  "\<exists>Rs. ApplyEdits
          \<lparr>ApplyEdits =
             [(''test.cpp'',
               [\<lparr>FilePath = ''test.cpp'', Offset = 0, Length = 0,
                  ReplacementText = ''using a::b::f;'' @ [CHR 0x0A, CHR 0x0A]\<rparr>,
                \<lparr>FilePath = ''test.cpp'', Offset = 53, Length = 6,
                  ReplacementText = []\<rparr>])]\<rparr>
        = [(getFilename (getSourceManager (AST inputsNested))
              (getMainFileID (getSourceManager (AST inputsNested))), Rs)]
      \<and> 1 \<le> length Rs \<and> length Rs \<le> 2
      \<and> nonOverlapping Rs
      \<and> (\<forall>R \<in> set Rs. \<forall>R' \<in> set Rs. FilePath R = FilePath R')"
proof -
  have h1: "AddUsing_apply inputsNested thisNested =
     Inr \<lparr>ApplyEdits =
       [(''test.cpp'',
         [\<lparr>FilePath = ''test.cpp'', Offset = 0, Length = 0,
            ReplacementText = ''using a::b::f;'' @ [CHR 0x0A, CHR 0x0A]\<rparr>,
          \<lparr>FilePath = ''test.cpp'', Offset = 53, Length = 6, ReplacementText = []\<rparr>])]\<rparr>"
    by code_simp
  show ?thesis
    by (rule effect_single_file_two_edits [OF h1])
qed

subsection \<open>A using-declaration whose qualifier is no namespace\<close>

text \<open>
  C9 fails on the code. In
  \<^verbatim>\<open>namespace a { void h(); } struct B { void f(); };
   struct D : B { using B::f; void g() { a::h(); } };\<close>
  with the cursor on \<^verbatim>\<open>a::h\<close>, \<^verbatim>\<open>prepare\<close> accepts the candidate, the scan collects the
  declaration \<^verbatim>\<open>using B::f\<close>, whose qualifier resolves to no namespace, and the comparison
  in the loop of \<^verbatim>\<open>findInsertionPoint\<close> dereferences the null pointer.
\<close>

theorem member_using_null_dereference:
  "AddUsing_prepare inputsMember AddUsing_init = (True, thisMember)
   \<and> TraverseAST (getASTContext (AST inputsMember)) exSM (OtherContext 1) = [usingMember]
   \<and> getAsNamespace (getQualifier usingMember) = None
   \<and> findInsertionPoint inputsMember qualifierMember ''h'' = Inl NullDereference
   \<and> runTweak inputsMember = Some (Inl NullDereference)"
  by code_simp

subsection \<open>Failures of apply\<close>

text \<open>
  C10: when the qualifier cannot be mapped to spelled tokens, \<^verbatim>\<open>apply\<close> returns the error
  ``Could not determine length of the qualifier''; when \<^verbatim>\<open>findInsertionPoint\<close> returns an
  error, \<^verbatim>\<open>apply\<close> returns an error and no edit, and that error is the one of
  \<^verbatim>\<open>findInsertionPoint\<close> whenever the qualifier was mapped to tokens. The deletion of the
  qualifier is never returned alone in that case.
\<close>

theorem apply_failure_is_only_error:
  "(spelledForExpanded (getTokens (AST Inputs))
      (expandedTokens (getTokens (AST Inputs)) (getSourceRange (QualifierToRemove this)))
      = None
    \<longrightarrow> AddUsing_apply Inputs this
          = Inl (StringError ''Could not determine length of the qualifier''))
   \<and> (findInsertionPoint Inputs (QualifierToRemove this) (Name this) = Inl Err
      \<longrightarrow> (\<exists>Err'. AddUsing_apply Inputs this = Inl Err'))
   \<and> (findInsertionPoint Inputs (QualifierToRemove this) (Name this) = Inl Err
      \<and> spelledForExpanded (getTokens (AST Inputs))
          (expandedTokens (getTokens (AST Inputs)) (getSourceRange (QualifierToRemove this)))
        = Some (T # Ts)
      \<longrightarrow> AddUsing_apply Inputs this = Inl Err)"
  by (auto simp: AddUsing_apply_def addUsingStatement_def Replacements_add_first Let_def
           split: option.splits list.splits)

text \<open>
  C10 at two inputs: the example with a token buffer that maps nothing, and the
  namespace of a header, where \<^verbatim>\<open>findInsertionPoint\<close> fails.
\<close>

theorem apply_failure_is_only_error_witness:
  "AddUsing_apply inputsUnmapped thisNested
     = Inl (StringError ''Could not determine length of the qualifier'')
   \<and> AddUsing_apply inputsHeader thisHeader = Inl (StringError ''Namespace with no {'')"
proof -
  have a: "spelledForExpanded (getTokens (AST inputsUnmapped))
             (expandedTokens (getTokens (AST inputsUnmapped))
                (getSourceRange (QualifierToRemove thisNested))) = None"
    by (simp add: inputsUnmapped_def)
  have b: "findInsertionPoint inputsHeader (QualifierToRemove thisHeader) (Name thisHeader)
             = Inl (StringError ''Namespace with no {'')"
    by code_simp
  have c: "spelledForExpanded (getTokens (AST inputsHeader))
             (expandedTokens (getTokens (AST inputsHeader))
                (getSourceRange (QualifierToRemove thisHeader)))
           = Some (tok tok_identifier 66 67 # [tok tok_coloncolon 67 69])"
    by code_simp
  show ?thesis
    using apply_failure_is_only_error [of inputsUnmapped thisNested] a
      apply_failure_is_only_error [of inputsHeader thisHeader
         "StringError ''Namespace with no {''"
         "tok tok_identifier 66 67" "[tok tok_coloncolon 67 69]"] b c
    by blast
qed

end
